theory Spec2Isabelle
  imports Complex_Main "HOL-Library.Log_Nat"
begin

section \<open>Data model of the WebGL backend (backend\_webgl.ts)\<close>

text \<open>
  The backend class \<open>MathBackendWebGL\<close> is embedded as a record that is passed through
  every method and returned updated. A method that can throw returns the pair of its
  outcome (\<open>Inl\<close> the error, \<open>Inr\<close> the value) and the state at the moment it returns or
  throws, since a JavaScript exception does not undo the assignments made before it.
  Typed arrays are lists of reals; a store into a \<open>Float32Array\<close> rounds to the nearest
  32-bit float (\<open>float32\<close> below). NaN, the NaN sentinels handled by \<open>util.isValNaN\<close> and
  \<open>util.getNaN\<close>, and the infinities have no counterpart among the reals and are outside
  the model.
  The timer stack (\<open>time\<close>, \<open>startTimer\<close>, \<open>endTimer\<close>) measures wall-clock time and is
  left out; an \<open>async\<close> method is read as one atomic step.
  Names are the source's. \<open>values\<close> and \<open>write\<close> are reserved words of Isabelle and
  \<open>equal\<close>, \<open>less\<close>, \<open>divide\<close> and \<open>sum\<close> are constants of HOL: they appear as
  \<open>values_cpu\<close>, \<open>write_op\<close>, \<open>equal_op\<close>, \<open>less_op\<close>, \<open>divide_op\<close> and \<open>sum_op\<close>; the
  \<open>shape\<close> and \<open>dtype\<close> of an array handle are \<open>nd_shape\<close> and \<open>nd_dtype\<close>.
\<close>

datatype DataType = Float32 | Int32 | Bool

datatype TextureType = FLOAT | UNSIGNED_BYTE

type_synonym WebGLTexture = nat

type_synonym TypedArray = "real list"

record TextureData =
  shape :: "nat list"
  dtype :: DataType
  values_cpu :: "TypedArray option"
  texture :: "WebGLTexture option"
  texShape :: "(nat \<times> nat) option"
  texType :: TextureType

record NDArray =
  dataId :: nat
  nd_shape :: "nat list"
  nd_dtype :: DataType

record GPGPUProgram =
  outputShape :: "nat list"
  userCode :: string

record GPGPUBinary =
  webGLProgram :: nat
  program :: GPGPUProgram
  shaderText :: string

datatype error =
    AlreadyRegistered nat
  | ValuesNull
  | NoDataFound nat
  | TypeError
  | RegionNotAllocated
  | AcquireAfterDispose
  | PixelsNull
  | NoCanvas
  | WebGLNotSupported
  | ProgramError string

fun show_digit :: "nat \<Rightarrow> char" where
  "show_digit n = (''0123456789'' ! (n mod 10))"

fun show_nat :: "nat \<Rightarrow> string" where
  "show_nat n = (if n < 10 then [show_digit n] else show_nat (n div 10) @ [show_digit n])"

declare show_nat.simps [simp del]

text \<open>The text of each \<open>new Error(...)\<close> of the backend; \<open>TypeError\<close> is the engine's own
  exception for a property read on \<open>null\<close> or \<open>undefined\<close>.\<close>

fun message :: "error \<Rightarrow> string" where
  "message (AlreadyRegistered i) = ''data id '' @ show_nat i @ '' already registered''"
| "message ValuesNull = ''MathBackendWebGL.write(): values can not be null''"
| "message (NoDataFound i) =
     ''No data found for NDArray with data id '' @ show_nat i @ ''. '' @
     ''Use dl.ENV.math instead of constructing your own NDArrayMath. '' @
     ''If you need to construct your own math, make sure this array is '' @
     ''allocated after the math construction''"
| "message TypeError = ''TypeError''"
| "message RegionNotAllocated = ''region not allocated''"
| "message AcquireAfterDispose = ''acquire after dispose''"
| "message PixelsNull = ''MathBackendWebGL.writePixels(): pixels can not be null''"
| "message NoCanvas = ''Can't read pixels from HTMLImageElement outside the browser.''"
| "message WebGLNotSupported = ''WebGL is not supported on this device''"
| "message (ProgramError m) = m"

subsection \<open>Device context\<close>

text \<open>Modelled from the spec: the class \<open>GPGPUContext\<close> (webgl/gpgpu\_context.ts) is not
  among the source files. Section 4.1 of the specification gives its contract: device
  regions that are created, written by \<open>upload\<close> (which fails on a region that was not
  allocated before), read back by \<open>downloadSync\<close>, compiled programs, and a \<open>dispose\<close>
  that releases every device resource and is guarded by a disposed flag. A download
  from a region that is not allocated is taken to fail as an upload does.\<close>

record GPGPUContext =
  regions :: "WebGLTexture \<rightharpoonup> real list"
  nextTexture :: nat
  programs :: "nat list"
  nextProgram :: nat
  contextDisposed :: bool

definition createMatrixTexture :: "nat \<Rightarrow> nat \<Rightarrow> GPGPUContext \<Rightarrow> WebGLTexture \<times> GPGPUContext" where
  "createMatrixTexture r c g =
     (nextTexture g,
      g\<lparr>regions := (regions g)(nextTexture g \<mapsto> replicate (r * c) 0),
        nextTexture := Suc (nextTexture g)\<rparr>)"

definition deleteMatrixTexture :: "WebGLTexture \<Rightarrow> GPGPUContext \<Rightarrow> GPGPUContext" where
  "deleteMatrixTexture t g = g\<lparr>regions := (regions g)(t := None)\<rparr>"

definition uploadMatrixToTexture ::
  "WebGLTexture \<Rightarrow> nat \<Rightarrow> nat \<Rightarrow> real list \<Rightarrow> GPGPUContext \<Rightarrow> error + GPGPUContext" where
  "uploadMatrixToTexture t r c a g =
     (case regions g t of
        None \<Rightarrow> Inl RegionNotAllocated
      | Some _ \<Rightarrow> Inr (g\<lparr>regions := (regions g)(t \<mapsto> a)\<rparr>))"

definition downloadMatrixFromTexture ::
  "WebGLTexture \<Rightarrow> nat \<Rightarrow> nat \<Rightarrow> GPGPUContext \<Rightarrow> error + real list" where
  "downloadMatrixFromTexture t r c g =
     (case regions g t of None \<Rightarrow> Inl RegionNotAllocated | Some a \<Rightarrow> Inr a)"

definition deleteProgram :: "nat \<Rightarrow> GPGPUContext \<Rightarrow> GPGPUContext" where
  "deleteProgram p g = g\<lparr>programs := removeAll p (programs g)\<rparr>"

definition createProgram :: "GPGPUContext \<Rightarrow> nat \<times> GPGPUContext" where
  "createProgram g =
     (nextProgram g, g\<lparr>programs := programs g @ [nextProgram g], nextProgram := Suc (nextProgram g)\<rparr>)"

definition gpgpu_dispose :: "GPGPUContext \<Rightarrow> GPGPUContext" where
  "gpgpu_dispose g =
     (if contextDisposed g then g
      else g\<lparr>regions := Map.empty, programs := [], contextDisposed := True\<rparr>)"

subsection \<open>Texture manager\<close>

text \<open>Modelled from the spec: the class \<open>TextureManager\<close> (webgl/texture\_manager.ts) is
  not among the source files. Section 4.2 of the specification: \<open>acquire\<close> returns a
  free block of exactly the requested shape and kind if the pool has one and allocates a
  new one from the device context otherwise; \<open>release\<close> puts the block back into the pool
  and frees no device memory; \<open>dispose\<close> frees every pooled and every outstanding block,
  and an \<open>acquire\<close> after it is an error.\<close>

record TextureManager =
  freeTextures :: "(nat \<times> nat) \<times> TextureType \<Rightarrow> WebGLTexture list"
  allocatedTextures :: "WebGLTexture list"
  managerDisposed :: bool

definition acquireTexture ::
  "nat \<times> nat \<Rightarrow> TextureType \<Rightarrow> TextureManager \<Rightarrow> GPGPUContext
     \<Rightarrow> error + (WebGLTexture \<times> TextureManager \<times> GPGPUContext)" where
  "acquireTexture shapeRC ty tm g =
     (if managerDisposed tm then Inl AcquireAfterDispose
      else case freeTextures tm (shapeRC, ty) of
        t # ts \<Rightarrow> Inr (t, tm\<lparr>freeTextures := (freeTextures tm)((shapeRC, ty) := ts)\<rparr>, g)
      | [] \<Rightarrow>
          (case createMatrixTexture (fst shapeRC) (snd shapeRC) g of
             (t, g') \<Rightarrow> Inr (t, tm\<lparr>allocatedTextures := allocatedTextures tm @ [t]\<rparr>, g')))"

definition releaseTexture ::
  "WebGLTexture \<Rightarrow> nat \<times> nat \<Rightarrow> TextureType \<Rightarrow> TextureManager \<Rightarrow> TextureManager" where
  "releaseTexture t shapeRC ty tm =
     tm\<lparr>freeTextures := (freeTextures tm)((shapeRC, ty) := freeTextures tm (shapeRC, ty) @ [t])\<rparr>"

definition textureManager_dispose ::
  "TextureManager \<Rightarrow> GPGPUContext \<Rightarrow> TextureManager \<times> GPGPUContext" where
  "textureManager_dispose tm g =
     (if managerDisposed tm then (tm, g)
      else (tm\<lparr>freeTextures := (\<lambda>_. []), allocatedTextures := [], managerDisposed := True\<rparr>,
            fold deleteMatrixTexture (allocatedTextures tm) g))"

subsection \<open>The backend state\<close>

text \<open>The fields of \<open>MathBackendWebGL\<close>. \<open>binaryCache\<close> is a JavaScript object used as a
  dictionary with string keys; it keeps insertion order, which \<open>dispose\<close> iterates, so it
  is an association list read with \<open>map_of\<close>. \<open>canvas\<close> tells whether the drawing surface
  exists (it does inside a browser only). \<open>nextDataId\<close> is the counter of the allocation
  collaborator (\<open>NDArray.make\<close>), kept here because \<open>makeOutputArray\<close> draws from it.\<close>

record MathBackendWebGL =
  texData :: "nat \<rightharpoonup> TextureData"
  textureManager :: TextureManager
  binaryCache :: "(string \<times> GPGPUBinary) list"
  gpgpuCreatedLocally :: bool
  gpgpu :: GPGPUContext
  delayedStorage :: bool
  disposed :: bool
  canvas :: bool
  nextDataId :: nat

type_synonym 'a result = "(error + 'a) \<times> MathBackendWebGL"

type_synonym ArrayData = "NDArray \<times> TextureData"

text \<open>What the backend takes from modules that are not among the source files:
  \<open>webgl_util.getTextureShapeFromLogicalShape\<close>, \<open>gpgpu_math.makeShaderKey\<close>, the shader
  text that \<open>gpgpu_math.compileProgram\<close> assembles for a program and may fail to
  assemble (\<open>shaderSource\<close>), the contents a compiled program leaves in its output
  region given the contents of its input regions (\<open>programResult\<close>), the constructors of
  \<open>BinaryOpProgram\<close>, \<open>Copy2DProgram\<close> and \<open>FromPixelsProgram\<close>, and the two feature flags
  read from \<open>ENV\<close>. They are parameters of the embedding. \<open>ArrayData\<close> is the pair
  \<open>{array, texData}\<close> handed to them.\<close>

record externals =
  getTextureShapeFromLogicalShape :: "nat list \<Rightarrow> nat \<times> nat"
  makeShaderKey :: "GPGPUProgram \<Rightarrow> ArrayData list \<Rightarrow> ArrayData \<Rightarrow> string"
  shaderSource :: "GPGPUProgram \<Rightarrow> ArrayData list \<Rightarrow> ArrayData \<Rightarrow> error + string"
  programResult :: "GPGPUBinary \<Rightarrow> ArrayData list \<Rightarrow> ArrayData \<Rightarrow> real list list \<Rightarrow> real list"
  BinaryOpProgram :: "string \<Rightarrow> nat list \<Rightarrow> nat list \<Rightarrow> error + GPGPUProgram"
  Copy2DProgram :: "nat \<Rightarrow> nat \<Rightarrow> GPGPUProgram"
  FromPixelsProgram :: "nat list \<Rightarrow> GPGPUProgram"
  WEBGL_GET_BUFFER_SUB_DATA_ASYNC_EXTENSION_ENABLED :: bool
  WEBGL_DISJOINT_QUERY_TIMER_EXTENSION_VERSION :: nat

subsection \<open>Conversions between typed arrays (the two functions at the end of the file)\<close>

definition toInt32 :: "int \<Rightarrow> int" where
  "toInt32 i = (i + 2 ^ 31) mod 2 ^ 32 - 2 ^ 31"

definition float32ToTypedArray :: "real list \<Rightarrow> DataType \<Rightarrow> TypedArray" where
  "float32ToTypedArray a dt =
     (case dt of
        Float32 \<Rightarrow> a
      | Int32 \<Rightarrow> map (\<lambda>v. of_int (toInt32 (round v))) a
      | Bool \<Rightarrow> map (\<lambda>v. of_int (round v mod 256)) a)"

text \<open>The value that a store into a \<open>Float32Array\<close> leaves there: the nearest number of
  IEEE 754 binary32, ties to the even significand. The numbers of binary32 are the
  multiples \<open>m * 2 ^ e / 2 ^ emin\<close> of the least positive one with a significand \<open>m\<close> below
  \<open>2 ^ 24\<close> in magnitude; \<open>bitlen\<close> is the number of binary digits of an integer, so \<open>q\<close> is
  the spacing of the numbers of binary32 around \<open>y\<close>, in units of the least positive one.
  The overflow to an infinity beyond the largest finite number is not modelled.\<close>

definition roundTiesToEven :: "real \<Rightarrow> int" where
  "roundTiesToEven x =
     (let f = \<lfloor>x\<rfloor>; d = x - of_int f
      in if d < 1 / 2 then f else if 1 / 2 < d then f + 1 else if even f then f else f + 1)"

definition emin :: nat where
  "emin = 149"

definition float32 :: "real \<Rightarrow> real" where
  "float32 x =
     (let y = \<bar>x\<bar> * 2 ^ emin;
          q = 2 ^ nat (bitlen \<lfloor>y\<rfloor> - 24)
      in sgn x * (of_int (roundTiesToEven (y / q)) * q / 2 ^ emin))"

text \<open>\<open>a instanceof Float32Array\<close> holds exactly for the arrays of encoding \<open>'float32'\<close>
  (\<open>DataTypeMap\<close>); the elements of an \<open>Int32Array\<close> or \<open>Uint8Array\<close> are stored one by one
  into a new \<open>Float32Array\<close>.\<close>

definition typedArrayToFloat32 :: "TypedArray \<Rightarrow> DataType \<Rightarrow> real list" where
  "typedArrayToFloat32 a dt =
     (case dt of
        Float32 \<Rightarrow> a
      | Int32 \<Rightarrow> map float32 a
      | Bool \<Rightarrow> map float32 a)"

subsection \<open>Registration, residency and disposal\<close>

definition register :: "nat \<Rightarrow> nat list \<Rightarrow> DataType \<Rightarrow> MathBackendWebGL \<Rightarrow> unit result" where
  "register i sh dt s =
     (if i \<in> dom (texData s) then (Inl (AlreadyRegistered i), s)
      else (Inr (),
            s\<lparr>texData := (texData s)(i \<mapsto>
                \<lparr>shape = sh, dtype = dt, values_cpu = None, texture = None,
                 texShape = None, texType = FLOAT\<rparr>)\<rparr>))"

definition throwIfNoData :: "nat \<Rightarrow> MathBackendWebGL \<Rightarrow> error option" where
  "throwIfNoData i s = (if i \<in> dom (texData s) then None else Some (NoDataFound i))"

definition uploadToGPU :: "externals \<Rightarrow> nat \<Rightarrow> MathBackendWebGL \<Rightarrow> unit result" where
  "uploadToGPU E i s =
     (case throwIfNoData i s of
        Some e \<Rightarrow> (Inl e, s)
      | None \<Rightarrow>
     (case texData s i of
        None \<Rightarrow> (Inl TypeError, s)
      | Some td \<Rightarrow>
          (case texture td of
             Some _ \<Rightarrow> (Inr (), s)
           | None \<Rightarrow>
               (let tsh = getTextureShapeFromLogicalShape E (shape td);
                    td1 = td\<lparr>texShape := Some tsh\<rparr>;
                    s1 = s\<lparr>texData := (texData s)(i \<mapsto> td1)\<rparr>
                in case acquireTexture tsh (texType td) (textureManager s1) (gpgpu s1) of
                     Inl e \<Rightarrow> (Inl e, s1)
                   | Inr (newTexture, tm', g') \<Rightarrow>
                       (let td2 = td1\<lparr>texture := Some newTexture\<rparr>;
                            s2 = s1\<lparr>textureManager := tm', gpgpu := g',
                                    texData := (texData s1)(i \<mapsto> td2)\<rparr>
                        in case values_cpu td of
                             None \<Rightarrow> (Inr (), s2)
                           | Some v \<Rightarrow>
                               (case uploadMatrixToTexture newTexture (fst tsh) (snd tsh)
                                       (typedArrayToFloat32 v (dtype td)) (gpgpu s2) of
                                  Inl e \<Rightarrow> (Inl e, s2)
                                | Inr g'' \<Rightarrow>
                                    (Inr (),
                                     s2\<lparr>gpgpu := g'',
                                        texData := (texData s2)(i \<mapsto> td2\<lparr>values_cpu := None\<rparr>)\<rparr>)))))))"

text \<open>\<open>cacheOnCPU\<close> destructures \<open>this.texData[dataId]\<close>, a \<open>TypeError\<close> when the record is
  missing; \<open>releaseTexture\<close> builds its pool key from the two entries of the shape, a
  \<open>TypeError\<close> when the device shape is \<open>null\<close>.\<close>

definition cacheOnCPU :: "nat \<Rightarrow> real list option \<Rightarrow> MathBackendWebGL \<Rightarrow> unit result" where
  "cacheOnCPU i float32Values s =
     (case texData s i of
        None \<Rightarrow> (Inl TypeError, s)
      | Some td \<Rightarrow>
          (let dontKeepCopyOnGPU = delayedStorage s;
               r = (if dontKeepCopyOnGPU \<and> texture td \<noteq> None then
                      (case (texture td, texShape td) of
                         (Some t, Some tsh) \<Rightarrow>
                           Inr (td\<lparr>texture := None, texShape := None\<rparr>,
                                releaseTexture t tsh (texType td) (textureManager s))
                       | _ \<Rightarrow> Inl TypeError)
                    else Inr (td, textureManager s))
           in case r of
                Inl e \<Rightarrow> (Inl e, s)
              | Inr (td1, tm1) \<Rightarrow>
                  (let td2 = (case float32Values of
                                None \<Rightarrow> td1
                              | Some f \<Rightarrow> td1\<lparr>values_cpu := Some (float32ToTypedArray f (dtype td))\<rparr>)
                   in (Inr (), s\<lparr>textureManager := tm1, texData := (texData s)(i \<mapsto> td2)\<rparr>))))"

definition write_op :: "externals \<Rightarrow> nat \<Rightarrow> TypedArray option \<Rightarrow> MathBackendWebGL \<Rightarrow> unit result" where
  "write_op E i vals s =
     (case vals of
        None \<Rightarrow> (Inl ValuesNull, s)
      | Some v \<Rightarrow>
     (case throwIfNoData i s of
        Some e \<Rightarrow> (Inl e, s)
      | None \<Rightarrow>
     (case texData s i of
        None \<Rightarrow> (Inl TypeError, s)
      | Some td \<Rightarrow>
          (let r = (case texture td of
                      None \<Rightarrow> Inr (td, textureManager s)
                    | Some t \<Rightarrow>
                        (case texShape td of
                           None \<Rightarrow> Inl TypeError
                         | Some tsh \<Rightarrow>
                             Inr (td\<lparr>texture := None, texShape := None\<rparr>,
                                  releaseTexture t tsh (texType td) (textureManager s))))
           in case r of
                Inl e \<Rightarrow> (Inl e, s)
              | Inr (td1, tm1) \<Rightarrow>
                  (let s1 = s\<lparr>textureManager := tm1,
                              texData := (texData s)(i \<mapsto> td1\<lparr>values_cpu := Some v\<rparr>)\<rparr>
                   in if \<not> delayedStorage s1 then uploadToGPU E i s1 else (Inr (), s1))))))"

definition readSync :: "externals \<Rightarrow> nat \<Rightarrow> MathBackendWebGL \<Rightarrow> TypedArray option result" where
  "readSync E i s =
     (case throwIfNoData i s of
        Some e \<Rightarrow> (Inl e, s)
      | None \<Rightarrow>
     (case texData s i of
        None \<Rightarrow> (Inl TypeError, s)
      | Some td \<Rightarrow>
          (case values_cpu td of
             Some v \<Rightarrow>
               (case cacheOnCPU i None s of
                  (Inl e, s1) \<Rightarrow> (Inl e, s1)
                | (Inr _, s1) \<Rightarrow> (Inr (Some v), s1))
           | None \<Rightarrow>
               (case texShape td of
                  None \<Rightarrow> (Inl TypeError, s)
                | Some tsh \<Rightarrow>
               (case texture td of
                  None \<Rightarrow> (Inl RegionNotAllocated, s)
                | Some t \<Rightarrow>
               (case downloadMatrixFromTexture t (fst tsh) (snd tsh) (gpgpu s) of
                  Inl e \<Rightarrow> (Inl e, s)
                | Inr float32Values \<Rightarrow>
                    (case cacheOnCPU i (Some float32Values) s of
                       (Inl e, s1) \<Rightarrow> (Inl e, s1)
                     | (Inr _, s1) \<Rightarrow>
                         (case texData s1 i of
                            None \<Rightarrow> (Inl TypeError, s1)
                          | Some td1 \<Rightarrow> (Inr (values_cpu td1), s1)))))))))"

text \<open>\<open>read\<close> is the asynchronous variant. \<open>downloadMatrixFromTextureAsync\<close> delivers what
  the blocking download does, and \<open>runQuery\<close> only waits for the queue to drain.\<close>

definition read :: "externals \<Rightarrow> nat \<Rightarrow> MathBackendWebGL \<Rightarrow> TypedArray option result" where
  "read E i s =
     (case throwIfNoData i s of
        Some e \<Rightarrow> (Inl e, s)
      | None \<Rightarrow>
     (case texData s i of
        None \<Rightarrow> (Inl TypeError, s)
      | Some td \<Rightarrow>
          (case values_cpu td of
             Some v \<Rightarrow>
               (case cacheOnCPU i None s of
                  (Inl e, s1) \<Rightarrow> (Inl e, s1)
                | (Inr _, s1) \<Rightarrow> (Inr (Some v), s1))
           | None \<Rightarrow>
               if WEBGL_GET_BUFFER_SUB_DATA_ASYNC_EXTENSION_ENABLED E then
                 (case texShape td of
                    None \<Rightarrow> (Inl TypeError, s)
                  | Some tsh \<Rightarrow>
                 (case texture td of
                    None \<Rightarrow> (Inl RegionNotAllocated, s)
                  | Some t \<Rightarrow>
                 (case downloadMatrixFromTexture t (fst tsh) (snd tsh) (gpgpu s) of
                    Inl e \<Rightarrow> (Inl e, s)
                  | Inr float32Values \<Rightarrow>
                      (case cacheOnCPU i (Some float32Values) s of
                         (Inl e, s1) \<Rightarrow> (Inl e, s1)
                       | (Inr _, s1) \<Rightarrow>
                           (case texData s1 i of
                              None \<Rightarrow> (Inl TypeError, s1)
                            | Some td1 \<Rightarrow> (Inr (values_cpu td1), s1))))))
               else if WEBGL_DISJOINT_QUERY_TIMER_EXTENSION_VERSION E = 0 then readSync E i s
               else readSync E i s)))"

definition disposeData :: "nat \<Rightarrow> MathBackendWebGL \<Rightarrow> unit result" where
  "disposeData i s =
     (case texData s i of
        None \<Rightarrow> (Inr (), s)
      | Some td \<Rightarrow>
          (case texture td of
             None \<Rightarrow> (Inr (), s\<lparr>texData := (texData s)(i := None)\<rparr>)
           | Some t \<Rightarrow>
               (case texShape td of
                  None \<Rightarrow> (Inl TypeError, s)
                | Some tsh \<Rightarrow>
                    (Inr (),
                     s\<lparr>textureManager := releaseTexture t tsh (texType td) (textureManager s),
                       texData := (texData s)(i := None)\<rparr>))))"

definition getTexture :: "externals \<Rightarrow> nat \<Rightarrow> MathBackendWebGL \<Rightarrow> WebGLTexture option result" where
  "getTexture E i s =
     (case uploadToGPU E i s of
        (Inl e, s1) \<Rightarrow> (Inl e, s1)
      | (Inr _, s1) \<Rightarrow>
          (case texData s1 i of
             None \<Rightarrow> (Inl TypeError, s1)
           | Some td \<Rightarrow> (Inr (texture td), s1)))"

definition getTextureData :: "externals \<Rightarrow> nat \<Rightarrow> MathBackendWebGL \<Rightarrow> TextureData result" where
  "getTextureData E i s =
     (case uploadToGPU E i s of
        (Inl e, s1) \<Rightarrow> (Inl e, s1)
      | (Inr _, s1) \<Rightarrow>
          (case texData s1 i of
             None \<Rightarrow> (Inl TypeError, s1)
           | Some td \<Rightarrow> (Inr td, s1)))"

subsection \<open>The program cache and program dispatch\<close>

definition getAndSaveBinary ::
  "string \<Rightarrow> (GPGPUContext \<Rightarrow> (error + GPGPUBinary) \<times> GPGPUContext)
     \<Rightarrow> MathBackendWebGL \<Rightarrow> GPGPUBinary result" where
  "getAndSaveBinary key getBinary s =
     (case map_of (binaryCache s) key of
        Some b \<Rightarrow> (Inr b, s)
      | None \<Rightarrow>
          (case getBinary (gpgpu s) of
             (Inl e, g') \<Rightarrow> (Inl e, s\<lparr>gpgpu := g'\<rparr>)
           | (Inr b, g') \<Rightarrow> (Inr b, s\<lparr>gpgpu := g', binaryCache := binaryCache s @ [(key, b)]\<rparr>)))"

text \<open>Modelled from the spec: \<open>NDArray.make\<close> (ndarray.ts) is not among the source files.
  Section 6 of the specification: the allocation collaborator supplies
  \<open>make(shape, dtype) -> handle\<close>; section 3: the residency record of a handle is created
  by registration before any operation. The handle gets the next unused identity.\<close>

text \<open>Modelled from the spec: \<open>gpgpu_math.compileProgram\<close> and \<open>gpgpu_math.runProgram\<close>
  (webgl/gpgpu\_math.ts) are not among the source files. Section 4.3 of the
  specification: the factory produces source text and metadata and compiles it via the
  device context; section 4.1: a compiled program is executed against bound memory
  regions. Running a program writes its output region, which has to be allocated.\<close>

definition compileProgram ::
  "externals \<Rightarrow> GPGPUProgram \<Rightarrow> ArrayData list \<Rightarrow> ArrayData \<Rightarrow> GPGPUContext
     \<Rightarrow> (error + GPGPUBinary) \<times> GPGPUContext" where
  "compileProgram E prog inputsData outputData g =
     (case shaderSource E prog inputsData outputData of
        Inl e \<Rightarrow> (Inl e, g)
      | Inr src \<Rightarrow>
          (case createProgram g of
             (p, g') \<Rightarrow> (Inr \<lparr>webGLProgram = p, program = prog, shaderText = src\<rparr>, g')))"

definition regionOf :: "GPGPUContext \<Rightarrow> ArrayData \<Rightarrow> real list" where
  "regionOf g a =
     (case texture (snd a) of
        None \<Rightarrow> []
      | Some t \<Rightarrow> (case regions g t of None \<Rightarrow> [] | Some c \<Rightarrow> c))"

definition runProgram ::
  "externals \<Rightarrow> GPGPUBinary \<Rightarrow> ArrayData list \<Rightarrow> ArrayData \<Rightarrow> GPGPUContext
     \<Rightarrow> error + GPGPUContext" where
  "runProgram E binary inputsData outputData g =
     (case texture (snd outputData) of
        None \<Rightarrow> Inl RegionNotAllocated
      | Some t \<Rightarrow>
          uploadMatrixToTexture t 0 0
            (programResult E binary inputsData outputData (map (regionOf g) inputsData)) g)"

definition makeOutputArray :: "nat list \<Rightarrow> DataType \<Rightarrow> MathBackendWebGL \<Rightarrow> NDArray result" where
  "makeOutputArray sh dt s =
     (let i = nextDataId s
      in case register i sh dt (s\<lparr>nextDataId := Suc i\<rparr>) of
           (Inl e, s1) \<Rightarrow> (Inl e, s1)
         | (Inr _, s1) \<Rightarrow> (Inr \<lparr>dataId = i, nd_shape = sh, nd_dtype = dt\<rparr>, s1))"

text \<open>The callback of \<open>inputs.map\<close> in \<open>compileAndRun\<close>: the operands are made resident one
  after the other, and the first failure ends the call.\<close>

fun uploadInputs :: "externals \<Rightarrow> NDArray list \<Rightarrow> MathBackendWebGL \<Rightarrow> unit result" where
  "uploadInputs E [] s = (Inr (), s)"
| "uploadInputs E (x # xs) s =
     (case uploadToGPU E (dataId x) s of
        (Inl e, s1) \<Rightarrow> (Inl e, s1)
      | (Inr _, s1) \<Rightarrow> uploadInputs E xs s1)"

text \<open>\<open>inputsData\<close> and \<open>outputData\<close> hold references to the residency records, so they show
  the records as they are once every operand is resident.\<close>

definition arrayData :: "MathBackendWebGL \<Rightarrow> NDArray \<Rightarrow> ArrayData option" where
  "arrayData s x = map_option (\<lambda>td. (x, td)) (texData s (dataId x))"

definition compileAndRun ::
  "externals \<Rightarrow> GPGPUProgram \<Rightarrow> NDArray list \<Rightarrow> NDArray option
     \<Rightarrow> MathBackendWebGL \<Rightarrow> NDArray result" where
  "compileAndRun E prog inputs output s =
     (case (case output of
              Some out \<Rightarrow> (Inr out, s)
            | None \<Rightarrow>
                (case inputs of
                   [] \<Rightarrow> (Inl TypeError, s)
                 | x # _ \<Rightarrow> makeOutputArray (outputShape prog) (nd_dtype x) s)) of
        (Inl e, s0) \<Rightarrow> (Inl e, s0)
      | (Inr out, s0) \<Rightarrow>
     (case uploadInputs E inputs s0 of
        (Inl e, s1) \<Rightarrow> (Inl e, s1)
      | (Inr _, s1) \<Rightarrow>
     (case uploadToGPU E (dataId out) s1 of
        (Inl e, s2) \<Rightarrow> (Inl e, s2)
      | (Inr _, s2) \<Rightarrow>
     (case (those (map (arrayData s2) inputs), arrayData s2 out) of
        (Some inputsData, Some outputData) \<Rightarrow>
          (let key = makeShaderKey E prog inputsData outputData
           in case getAndSaveBinary key (compileProgram E prog inputsData outputData) s2 of
                (Inl e, s3) \<Rightarrow> (Inl e, s3)
              | (Inr binary, s3) \<Rightarrow>
                  (case runProgram E binary inputsData outputData (gpgpu s3) of
                     Inl e \<Rightarrow> (Inl e, s3)
                   | Inr g' \<Rightarrow> (Inr out, s3\<lparr>gpgpu := g'\<rparr>)))
      | _ \<Rightarrow> (Inl TypeError, s2)))))"

definition dispose :: "MathBackendWebGL \<Rightarrow> MathBackendWebGL" where
  "dispose s =
     (if disposed s then s
      else
        (let g1 = fold (\<lambda>kb. deleteProgram (webGLProgram (snd kb))) (binaryCache s) (gpgpu s);
             tg = textureManager_dispose (textureManager s) g1;
             g3 = (if gpgpuCreatedLocally s then gpgpu_dispose (snd tg) else snd tg)
         in s\<lparr>textureManager := fst tg, gpgpu := g3, disposed := True\<rparr>))"

definition copy2D ::
  "externals \<Rightarrow> NDArray \<Rightarrow> nat \<times> nat \<Rightarrow> NDArray \<Rightarrow> nat \<times> nat
     \<Rightarrow> MathBackendWebGL \<Rightarrow> NDArray result" where
  "copy2D E source sourceSizeRowCol dest destSizeRowCol s =
     compileAndRun E (Copy2DProgram E (snd sourceSizeRowCol) (snd destSizeRowCol))
       [source] (Some dest) s"

text \<open>\<open>as2D\<close> and \<open>reshape\<close> give a handle of another logical shape on the same data.\<close>

definition clone :: "externals \<Rightarrow> NDArray \<Rightarrow> MathBackendWebGL \<Rightarrow> NDArray result" where
  "clone E x s =
     (case throwIfNoData (dataId x) s of
        Some e \<Rightarrow> (Inl e, s)
      | None \<Rightarrow>
     (case uploadToGPU E (dataId x) s of
        (Inl e, s1) \<Rightarrow> (Inl e, s1)
      | (Inr _, s1) \<Rightarrow>
     (case texData s1 (dataId x) of
        None \<Rightarrow> (Inl TypeError, s1)
      | Some td \<Rightarrow>
     (case texShape td of
        None \<Rightarrow> (Inl TypeError, s1)
      | Some tsh \<Rightarrow>
          (let source = x\<lparr>nd_shape := [fst tsh, snd tsh]\<rparr>
           in case makeOutputArray [fst tsh, snd tsh] (nd_dtype x) s1 of
                (Inl e, s2) \<Rightarrow> (Inl e, s2)
              | (Inr output, s2) \<Rightarrow>
                  (case copy2D E source tsh output tsh s2 of
                     (Inl e, s3) \<Rightarrow> (Inl e, s3)
                   | (Inr _, s3) \<Rightarrow> (Inr (output\<lparr>nd_shape := nd_shape x\<rparr>), s3)))))))"

text \<open>A pixel source: an image, canvas or video element, or \<open>null\<close>.\<close>

record PixelSource =
  height :: nat
  width :: nat
  isVideo :: bool
  pixelData :: "real list"

text \<open>Modelled from the spec: \<open>GPGPUContext.uploadPixelDataToTexture\<close> is not among the
  source files; it writes the pixel bytes into the region, as \<open>upload\<close> does.\<close>

definition uploadPixelDataToTexture ::
  "WebGLTexture option \<Rightarrow> PixelSource \<Rightarrow> GPGPUContext \<Rightarrow> error + GPGPUContext" where
  "uploadPixelDataToTexture t pixels g =
     (case t of
        None \<Rightarrow> Inl RegionNotAllocated
      | Some t' \<Rightarrow> uploadMatrixToTexture t' (height pixels) (width pixels) (pixelData pixels) g)"

definition fromPixels ::
  "externals \<Rightarrow> PixelSource option \<Rightarrow> nat \<Rightarrow> MathBackendWebGL \<Rightarrow> NDArray result" where
  "fromPixels E pixels numChannels s =
     (case pixels of
        None \<Rightarrow> (Inl PixelsNull, s)
      | Some px \<Rightarrow>
          if isVideo px \<and> \<not> canvas s then (Inl NoCanvas, s)
          else
     (case makeOutputArray [height px, width px] Int32 s of
        (Inl e, s1) \<Rightarrow> (Inl e, s1)
      | (Inr tempPixelArray, s1) \<Rightarrow>
     (case texData s1 (dataId tempPixelArray) of
        None \<Rightarrow> (Inl TypeError, s1)
      | Some td \<Rightarrow>
     (case getTexture E (dataId tempPixelArray)
             (s1\<lparr>texData := (texData s1)(dataId tempPixelArray \<mapsto> td\<lparr>texType := UNSIGNED_BYTE\<rparr>)\<rparr>) of
        (Inl e, s2) \<Rightarrow> (Inl e, s2)
      | (Inr t, s2) \<Rightarrow>
     (case uploadPixelDataToTexture t px (gpgpu s2) of
        Inl e \<Rightarrow> (Inl e, s2)
      | Inr g' \<Rightarrow>
     (case compileAndRun E (FromPixelsProgram E [height px, width px, numChannels])
             [tempPixelArray] None (s2\<lparr>gpgpu := g'\<rparr>) of
        (Inl e, s3) \<Rightarrow> (Inl e, s3)
      | (Inr res, s3) \<Rightarrow>
     (case disposeData (dataId tempPixelArray) s3 of
        (Inl e, s4) \<Rightarrow> (Inl e, s4)
      | (Inr _, s4) \<Rightarrow> (Inr res, s4))))))))"

subsection \<open>Binary operations\<close>

text \<open>Modelled from the spec: \<open>types.upcastType\<close> (types.ts) is not among the source files.
  Section 4.4 of the specification: a fixed upcast table in which mixing a narrower and
  a wider kind yields the wider kind; the kinds are boolean, 32-bit integer and floating
  point, in this order of width.\<close>

fun dtypeWidth :: "DataType \<Rightarrow> nat" where
  "dtypeWidth Bool = 0"
| "dtypeWidth Int32 = 1"
| "dtypeWidth Float32 = 2"

definition upcastType :: "DataType \<Rightarrow> DataType \<Rightarrow> DataType" where
  "upcastType a b = (if dtypeWidth b \<le> dtypeWidth a then a else b)"

text \<open>The two shapes the binary operations have in the source: with an output array made
  for a stated encoding, and with the output left to \<open>compileAndRun\<close>. The first argument
  names the constant of \<open>binaryop_gpu\<close> the program is built from.\<close>

definition binaryOpInto ::
  "externals \<Rightarrow> string \<Rightarrow> DataType \<Rightarrow> NDArray \<Rightarrow> NDArray \<Rightarrow> MathBackendWebGL \<Rightarrow> NDArray result" where
  "binaryOpInto E opc dt a b s =
     (case BinaryOpProgram E opc (nd_shape a) (nd_shape b) of
        Inl e \<Rightarrow> (Inl e, s)
      | Inr prog \<Rightarrow>
          (case makeOutputArray (outputShape prog) dt s of
             (Inl e, s1) \<Rightarrow> (Inl e, s1)
           | (Inr output, s1) \<Rightarrow> compileAndRun E prog [a, b] (Some output) s1))"

definition binaryOpDefault ::
  "externals \<Rightarrow> string \<Rightarrow> NDArray \<Rightarrow> NDArray \<Rightarrow> MathBackendWebGL \<Rightarrow> NDArray result" where
  "binaryOpDefault E opc a b s =
     (case BinaryOpProgram E opc (nd_shape a) (nd_shape b) of
        Inl e \<Rightarrow> (Inl e, s)
      | Inr prog \<Rightarrow> compileAndRun E prog [a, b] None s)"

definition multiply :: "externals \<Rightarrow> NDArray \<Rightarrow> NDArray \<Rightarrow> MathBackendWebGL \<Rightarrow> NDArray result" where
  "multiply E a b = binaryOpInto E ''MUL'' (upcastType (nd_dtype a) (nd_dtype b)) a b"

definition equal_op :: "externals \<Rightarrow> NDArray \<Rightarrow> NDArray \<Rightarrow> MathBackendWebGL \<Rightarrow> NDArray result" where
  "equal_op E a b = binaryOpInto E ''EQUAL'' Bool a b"

definition notEqual :: "externals \<Rightarrow> NDArray \<Rightarrow> NDArray \<Rightarrow> MathBackendWebGL \<Rightarrow> NDArray result" where
  "notEqual E a b = binaryOpInto E ''NOT_EQUAL'' Bool a b"

definition less_op :: "externals \<Rightarrow> NDArray \<Rightarrow> NDArray \<Rightarrow> MathBackendWebGL \<Rightarrow> NDArray result" where
  "less_op E a b = binaryOpInto E ''LESS'' Bool a b"

definition lessEqual :: "externals \<Rightarrow> NDArray \<Rightarrow> NDArray \<Rightarrow> MathBackendWebGL \<Rightarrow> NDArray result" where
  "lessEqual E a b = binaryOpInto E ''LESS_EQUAL'' Bool a b"

definition greater :: "externals \<Rightarrow> NDArray \<Rightarrow> NDArray \<Rightarrow> MathBackendWebGL \<Rightarrow> NDArray result" where
  "greater E a b = binaryOpInto E ''GREATER'' Bool a b"

definition greaterEqual :: "externals \<Rightarrow> NDArray \<Rightarrow> NDArray \<Rightarrow> MathBackendWebGL \<Rightarrow> NDArray result" where
  "greaterEqual E a b = binaryOpInto E ''GREATER_EQUAL'' Bool a b"

definition logicalAnd :: "externals \<Rightarrow> NDArray \<Rightarrow> NDArray \<Rightarrow> MathBackendWebGL \<Rightarrow> NDArray result" where
  "logicalAnd E a b = binaryOpInto E ''LOGICAL_AND'' Bool a b"

definition logicalOr :: "externals \<Rightarrow> NDArray \<Rightarrow> NDArray \<Rightarrow> MathBackendWebGL \<Rightarrow> NDArray result" where
  "logicalOr E a b = binaryOpInto E ''LOGICAL_OR'' Bool a b"

definition minimum :: "externals \<Rightarrow> NDArray \<Rightarrow> NDArray \<Rightarrow> MathBackendWebGL \<Rightarrow> NDArray result" where
  "minimum E a b = binaryOpDefault E ''MIN'' a b"

definition maximum :: "externals \<Rightarrow> NDArray \<Rightarrow> NDArray \<Rightarrow> MathBackendWebGL \<Rightarrow> NDArray result" where
  "maximum E a b = binaryOpDefault E ''MAX'' a b"

definition divide_op :: "externals \<Rightarrow> NDArray \<Rightarrow> NDArray \<Rightarrow> MathBackendWebGL \<Rightarrow> NDArray result" where
  "divide_op E a b = binaryOpInto E ''DIV'' Float32 a b"

definition add :: "externals \<Rightarrow> NDArray \<Rightarrow> NDArray \<Rightarrow> MathBackendWebGL \<Rightarrow> NDArray result" where
  "add E a b = binaryOpInto E ''ADD'' (upcastType (nd_dtype a) (nd_dtype b)) a b"

definition subtract :: "externals \<Rightarrow> NDArray \<Rightarrow> NDArray \<Rightarrow> MathBackendWebGL \<Rightarrow> NDArray result" where
  "subtract E a b = binaryOpInto E ''SUB'' (upcastType (nd_dtype a) (nd_dtype b)) a b"

definition pow :: "externals \<Rightarrow> NDArray \<Rightarrow> NDArray \<Rightarrow> MathBackendWebGL \<Rightarrow> NDArray result" where
  "pow E a b = binaryOpInto E ''POW'' (upcastType (nd_dtype a) (nd_dtype b)) a b"

datatype BinaryOp =
    Multiply | Equal | NotEqual | Less | LessEqual | Greater | GreaterEqual
  | LogicalAnd | LogicalOr | Minimum | Maximum | Divide | Add | Subtract | Pow

fun binaryOp ::
  "externals \<Rightarrow> BinaryOp \<Rightarrow> NDArray \<Rightarrow> NDArray \<Rightarrow> MathBackendWebGL \<Rightarrow> NDArray result" where
  "binaryOp E Multiply = multiply E"
| "binaryOp E Equal = equal_op E"
| "binaryOp E NotEqual = notEqual E"
| "binaryOp E Less = less_op E"
| "binaryOp E LessEqual = lessEqual E"
| "binaryOp E Greater = greater E"
| "binaryOp E GreaterEqual = greaterEqual E"
| "binaryOp E LogicalAnd = logicalAnd E"
| "binaryOp E LogicalOr = logicalOr E"
| "binaryOp E Minimum = minimum E"
| "binaryOp E Maximum = maximum E"
| "binaryOp E Divide = divide_op E"
| "binaryOp E Add = add E"
| "binaryOp E Subtract = subtract E"
| "binaryOp E Pow = pow E"

subsection \<open>Sequences of calls\<close>

text \<open>The calls a client can make on the backend. Every tensor operation of the class
  is \<open>compileAndRun\<close> on a program of its own, some after \<open>makeOutputArray\<close>, and
  \<open>NDArray.dispose\<close> is \<open>disposeData\<close>; \<open>run\<close> executes a list of calls and goes on after a
  call that throws, as a client that catches the exception does.\<close>

datatype call =
    Register nat "nat list" DataType
  | FromPixels "PixelSource option" nat
  | Write nat "TypedArray option"
  | ReadSync nat
  | Read nat
  | DisposeData nat
  | GetTexture nat
  | GetTextureData nat
  | Clone NDArray
  | MakeOutputArray "nat list" DataType
  | CompileAndRun GPGPUProgram "NDArray list" "NDArray option"
  | Binary BinaryOp NDArray NDArray
  | Dispose

fun step :: "externals \<Rightarrow> call \<Rightarrow> MathBackendWebGL \<Rightarrow> MathBackendWebGL" where
  "step E (Register i sh dt) s = snd (register i sh dt s)"
| "step E (FromPixels px n) s = snd (fromPixels E px n s)"
| "step E (Write i v) s = snd (write_op E i v s)"
| "step E (ReadSync i) s = snd (readSync E i s)"
| "step E (Read i) s = snd (read E i s)"
| "step E (DisposeData i) s = snd (disposeData i s)"
| "step E (GetTexture i) s = snd (getTexture E i s)"
| "step E (GetTextureData i) s = snd (getTextureData E i s)"
| "step E (Clone x) s = snd (clone E x s)"
| "step E (MakeOutputArray sh dt) s = snd (makeOutputArray sh dt s)"
| "step E (CompileAndRun prog inputs output) s = snd (compileAndRun E prog inputs output s)"
| "step E (Binary bop a b) s = snd (binaryOp E bop a b s)"
| "step E Dispose s = dispose s"

fun run :: "externals \<Rightarrow> call list \<Rightarrow> MathBackendWebGL \<Rightarrow> MathBackendWebGL" where
  "run E [] s = s"
| "run E (c # cs) s = run E cs (step E c s)"

subsection \<open>Construction\<close>

text \<open>Modelled from the spec: the constructors of \<open>GPGPUContext\<close> and \<open>TextureManager\<close> are
  not among the source files; a new context holds no region and no program, a new
  manager an empty pool.\<close>

definition newGPGPUContext :: GPGPUContext where
  "newGPGPUContext =
     \<lparr>regions = Map.empty, nextTexture = 0, programs = [], nextProgram = 0,
      contextDisposed = False\<rparr>"

definition newTextureManager :: TextureManager where
  "newTextureManager =
     \<lparr>freeTextures = (\<lambda>_. []), allocatedTextures = [], managerDisposed = False\<rparr>"

text \<open>The constructor of the class; its first argument is \<open>ENV.get('WEBGL_VERSION')\<close>, its
  last whether \<open>document\<close> is defined.\<close>

definition newMathBackendWebGL ::
  "nat \<Rightarrow> GPGPUContext option \<Rightarrow> bool \<Rightarrow> bool \<Rightarrow> error + MathBackendWebGL" where
  "newMathBackendWebGL webglVersion g delayed document =
     (if webglVersion < 1 then Inl WebGLNotSupported
      else Inr \<lparr>texData = Map.empty,
                textureManager = newTextureManager,
                binaryCache = [],
                gpgpuCreatedLocally = (g = None),
                gpgpu = (case g of None \<Rightarrow> newGPGPUContext | Some g' \<Rightarrow> g'),
                delayedStorage = delayed,
                disposed = False,
                canvas = document,
                nextDataId = 0\<rparr>)"

text \<open>A backend as \<open>new MathBackendWebGL()\<close> makes it in a browser, one in immediate
  storage mode, and a choice of the parameters, for the evaluations below.\<close>

definition defaultBackend :: MathBackendWebGL where
  "defaultBackend =
     \<lparr>texData = Map.empty, textureManager = newTextureManager, binaryCache = [],
      gpgpuCreatedLocally = True, gpgpu = newGPGPUContext, delayedStorage = True,
      disposed = False, canvas = True, nextDataId = 0\<rparr>"

definition immediateBackend :: MathBackendWebGL where
  "immediateBackend = defaultBackend\<lparr>delayedStorage := False\<rparr>"

definition sampleExternals :: externals where
  "sampleExternals =
     \<lparr>getTextureShapeFromLogicalShape = (\<lambda>sh. (1, prod_list sh)),
      makeShaderKey = (\<lambda>prog ins out. userCode prog),
      shaderSource = (\<lambda>prog ins out. Inr (userCode prog)),
      programResult = (\<lambda>b ins out cs. concat cs),
      BinaryOpProgram = (\<lambda>opc sa sb. Inr \<lparr>outputShape = sa, userCode = opc\<rparr>),
      Copy2DProgram = (\<lambda>a b. \<lparr>outputShape = [a, b], userCode = ''copy''\<rparr>),
      FromPixelsProgram = (\<lambda>sh. \<lparr>outputShape = sh, userCode = ''fromPixels''\<rparr>),
      WEBGL_GET_BUFFER_SUB_DATA_ASYNC_EXTENSION_ENABLED = False,
      WEBGL_DISJOINT_QUERY_TIMER_EXTENSION_VERSION = 0\<rparr>"

subsection \<open>Predicates on backend states\<close>

text \<open>\<open>noBothCopies\<close>: no residency record holds host values and a device texture at
  once. \<open>poolAllocated\<close>: as long as the texture manager is not disposed, every texture in
  its pool and every texture attached to a record is an allocated region of the device
  context. \<open>cacheKept s s'\<close>: every entry of the program cache of \<open>s\<close> is an entry of
  that of \<open>s'\<close>, with the same binary.\<close>

definition noBothCopies :: "MathBackendWebGL \<Rightarrow> bool" where
  "noBothCopies s \<longleftrightarrow>
     (\<forall>i td. texData s i = Some td \<longrightarrow> \<not> (values_cpu td \<noteq> None \<and> texture td \<noteq> None))"

definition poolAllocated :: "MathBackendWebGL \<Rightarrow> bool" where
  "poolAllocated s \<longleftrightarrow>
     (\<not> managerDisposed (textureManager s) \<longrightarrow>
        (\<forall>k. set (freeTextures (textureManager s) k) \<subseteq> dom (regions (gpgpu s))) \<and>
        (\<forall>i td t. texData s i = Some td \<longrightarrow> texture td = Some t \<longrightarrow> t \<in> dom (regions (gpgpu s))))"

definition delayedInvariant :: "MathBackendWebGL \<Rightarrow> bool" where
  "delayedInvariant s \<longleftrightarrow> delayedStorage s \<and> poolAllocated s \<and> noBothCopies s"

definition cacheKept :: "MathBackendWebGL \<Rightarrow> MathBackendWebGL \<Rightarrow> bool" where
  "cacheKept s s' \<longleftrightarrow>
     (\<forall>k b. map_of (binaryCache s) k = Some b \<longrightarrow> map_of (binaryCache s') k = Some b)"

definition sampleBinary :: GPGPUBinary where
  "sampleBinary =
     \<lparr>webGLProgram = 0, program = \<lparr>outputShape = [3], userCode = ''NEG''\<rparr>,
      shaderText = ''NEG''\<rparr>"

text \<open>\<open>deviceShaped\<close>: a record with a device texture has a device shape. It holds of a
  new backend and is kept by every call (\<open>run_shaped\<close> below), in both storage modes.\<close>

definition deviceShaped :: "MathBackendWebGL \<Rightarrow> bool" where
  "deviceShaped s \<longleftrightarrow>
     (\<forall>i td. texData s i = Some td \<longrightarrow> texture td \<noteq> None \<longrightarrow> texShape td \<noteq> None)"

text \<open>A backend in which handle 1 is registered and device-resident.\<close>

definition residentBackend :: MathBackendWebGL where
  "residentBackend =
     run sampleExternals [Register 1 [3] Float32, Write 1 (Some [1, 2, 3]), GetTexture 1]
       defaultBackend"

text \<open>A backend in immediate storage mode with handle 1 registered, and a default
  backend after one program has run on handle 1.\<close>

definition registeredImmediate :: MathBackendWebGL where
  "registeredImmediate = run sampleExternals [Register 1 [3] Float32] immediateBackend"

definition compiledBackend :: MathBackendWebGL where
  "compiledBackend =
     run sampleExternals
       [Register 1 [3] Float32, Write 1 (Some [1, 2, 3]),
        CompileAndRun \<lparr>outputShape = [3], userCode = ''NEG''\<rparr>
          [\<lparr>dataId = 1, nd_shape = [3], nd_dtype = Float32\<rparr>] None]
       defaultBackend"

text \<open>A default backend with host values written to handle 1 and no handle 2, two
  array handles on these identities, and a default backend with an integer array on
  handle 1 and a floating-point array on handle 2.\<close>

definition hostBackend :: MathBackendWebGL where
  "hostBackend =
     run sampleExternals [Register 1 [3] Float32, Write 1 (Some [1, 2, 3])] defaultBackend"

definition array1 :: NDArray where
  "array1 = \<lparr>dataId = 1, nd_shape = [3], nd_dtype = Float32\<rparr>"

definition array2 :: NDArray where
  "array2 = \<lparr>dataId = 2, nd_shape = [3], nd_dtype = Float32\<rparr>"

definition mixedBackend :: MathBackendWebGL where
  "mixedBackend =
     run sampleExternals
       [Register 1 [3] Int32, Write 1 (Some [1, 2, 3]),
        Register 2 [3] Float32, Write 2 (Some [4, 5, 6])] defaultBackend"

definition intArray :: NDArray where
  "intArray = \<lparr>dataId = 1, nd_shape = [3], nd_dtype = Int32\<rparr>"

definition floatArray :: NDArray where
  "floatArray = \<lparr>dataId = 2, nd_shape = [3], nd_dtype = Float32\<rparr>"

section \<open>The reduction drivers\<close>

text \<open>The reductions are read at the level of the values the arrays hold: an \<open>Array2D\<close>
  is its shape and its rows, and \<open>compileAndRun(program, inputs, output)\<close> leaves in
  \<open>output\<close> what the program computes from \<open>inputs\<close>. The device holds 32-bit floats:
  every sum that a pass stores is rounded by \<open>float32\<close>.\<close>

record 'a Array2D =
  shape2 :: "nat \<times> nat"
  rows :: "'a list list"

definition wellShaped :: "'a Array2D \<Rightarrow> bool" where
  "wellShaped x \<longleftrightarrow>
     length (rows x) = fst (shape2 x) \<and> (\<forall>r \<in> set (rows x). length r = snd (shape2 x))"

datatype ReduceType = RMax | RMin | RSum

datatype ArgReduceType = ArgMax | ArgMin

record ReduceInfo =
  windowSize :: nat
  inSize :: nat
  batchSize :: nat

text \<open>Modelled from the spec: the classes \<open>ReduceProgram\<close> (webgl/reduce\_gpu.ts) and
  \<open>ArgMinMaxProgram\<close> (webgl/argminmax\_gpu.ts) are not among the source files. Section
  4.4 of the specification: a single pass over a \<open>[batch, reduceSize]\<close> view produces a
  partially reduced \<open>[batch, reduceSize/window]\<close> result, the window size being how many
  elements one pass consumes per output element (glossary). The quotient is rounded up,
  so that a window size that does not divide the size leaves a last, shorter window.
  A window size of 0 gives no program. The specification does not say in which order a
  window is added up: the sum is accumulated here from 0, element after element, as a
  loop over the window does, and every intermediate sum is a 32-bit float. For the
  arg-reductions the first-encountered
  extremal element of a window wins; a later pass reads its candidates from the
  best-indices array of the pass before, the first pass takes the positions themselves.\<close>

definition ceilDiv :: "nat \<Rightarrow> nat \<Rightarrow> nat" where
  "ceilDiv n w = (n + w - 1) div w"

definition programOutputShape :: "ReduceInfo \<Rightarrow> (nat \<times> nat) option" where
  "programOutputShape info =
     (if windowSize info = 0 then None
      else Some (batchSize info, ceilDiv (inSize info) (windowSize info)))"

definition window :: "nat \<Rightarrow> nat \<Rightarrow> 'a list \<Rightarrow> 'a list" where
  "window w j r = take w (drop (j * w) r)"

fun reduceWindow :: "ReduceType \<Rightarrow> real list \<Rightarrow> real" where
  "reduceWindow RSum v = foldl (\<lambda>sumValue a. float32 (sumValue + a)) 0 v"
| "reduceWindow RMax v = (case v of [] \<Rightarrow> 0 | a # as \<Rightarrow> foldl max a as)"
| "reduceWindow RMin v = (case v of [] \<Rightarrow> 0 | a # as \<Rightarrow> foldl min a as)"

definition runReduceProgram :: "ReduceInfo \<Rightarrow> ReduceType \<Rightarrow> real Array2D \<Rightarrow> real Array2D option" where
  "runReduceProgram info rt x =
     (case programOutputShape info of
        None \<Rightarrow> None
      | Some sh \<Rightarrow>
          Some \<lparr>shape2 = sh,
                rows = map (\<lambda>r. map (\<lambda>j. reduceWindow rt (window (windowSize info) j r)) [0..<snd sh])
                         (rows x)\<rparr>)"

fun better :: "ArgReduceType \<Rightarrow> real \<Rightarrow> real \<Rightarrow> bool" where
  "better ArgMax candidate bestValue = (bestValue < candidate)"
| "better ArgMin candidate bestValue = (candidate < bestValue)"

definition pick :: "ArgReduceType \<Rightarrow> real list \<Rightarrow> nat \<Rightarrow> nat \<Rightarrow> nat" where
  "pick rt v bestIndex inIdx = (if better rt (v ! inIdx) (v ! bestIndex) then inIdx else bestIndex)"

definition argWindow :: "ArgReduceType \<Rightarrow> real list \<Rightarrow> nat list \<Rightarrow> nat" where
  "argWindow rt v cands = (case cands of [] \<Rightarrow> 0 | c # cs \<Rightarrow> foldl (pick rt v) c cs)"



text \<open>The drivers of the source. \<open>computeOptimalWindowSize\<close> (reduce\_util.ts) is not among
  the source files and is a parameter. A driver that recurses for ever has no result:
  \<open>None\<close>, as when there is no program. \<open>dt\<close> (the source's \<open>dtype\<close>) is the encoding
  under which \<open>makeOutputArray\<close> registers the output of every pass; it plays its part
  when the values of the result are read.\<close>

partial_function (option) reduce ::
  "(nat \<Rightarrow> nat) \<Rightarrow> real Array2D \<Rightarrow> ReduceType \<Rightarrow> DataType \<Rightarrow> real Array2D option" where
  "reduce computeOptimalWindowSize x reduceType dt =
     (let reduceInfo = \<lparr>windowSize = computeOptimalWindowSize (snd (shape2 x)),
                        inSize = snd (shape2 x), batchSize = fst (shape2 x)\<rparr>
      in case runReduceProgram reduceInfo reduceType x of
           None \<Rightarrow> None
         | Some output \<Rightarrow>
             if snd (shape2 output) = 1 then Some output
             else reduce computeOptimalWindowSize output reduceType dt)"


text \<open>\<open>sum\<close>, \<open>argMax\<close> and \<open>argMin\<close> on a two-dimensional array along its inner axis:
  \<open>as2D(-1, inSize)\<close> is the array itself, and \<open>reshape(outShape)\<close> gives the one column of
  the result as a one-dimensional array.

  \<open>sum\<close> is read from the host values of its operand, of encoding \<open>dt\<close>, to the host
  values of its result: the first pass makes the operand resident (\<open>uploadToGPU\<close>, through
  \<open>typedArrayToFloat32\<close>), and reading the result (\<open>readSync\<close>) gives
  \<open>float32ToTypedArray\<close> of the device contents at the encoding of the output, which is
  \<open>types.sumOutType(x.dtype)\<close>. \<open>types.sumOutType\<close> (types.ts) is not among the source files
  and is a parameter.\<close>

definition sum_op ::
  "(nat \<Rightarrow> nat) \<Rightarrow> (DataType \<Rightarrow> DataType) \<Rightarrow> DataType \<Rightarrow> real Array2D \<Rightarrow> TypedArray option" where
  "sum_op computeOptimalWindowSize sumOutType dt x =
     (let outputDType = sumOutType dt;
          a2D = x\<lparr>rows := map (\<lambda>r. typedArrayToFloat32 r dt) (rows x)\<rparr>
      in map_option (\<lambda>out. float32ToTypedArray (concat (rows out)) outputDType)
           (reduce computeOptimalWindowSize a2D RSum outputDType))"



text \<open>A window-size heuristic under which a pass shortens every row longer than one
  element: at least 1, and at least 2 on sizes from 2 on.\<close>

definition shrinking :: "(nat \<Rightarrow> nat) \<Rightarrow> bool" where
  "shrinking computeOptimalWindowSize \<longleftrightarrow>
     (\<forall>n. 1 \<le> n \<longrightarrow> min 2 n \<le> computeOptimalWindowSize n)"

text \<open>A row of integers whose absolute values add up to at most \<open>2 ^ 24\<close>: every sum of
  some of its entries is an integer of magnitude at most \<open>2 ^ 24\<close>, hence a 32-bit float.\<close>

definition smallIntegers :: "real list \<Rightarrow> bool" where
  "smallIntegers r \<longleftrightarrow> list_all (\<lambda>v. of_int \<lfloor>v\<rfloor> = v) r \<and> sum_list (map abs r) \<le> 2 ^ 24"


section \<open>Properties of the backend\<close>

subsection \<open>Rounding to 32-bit floating point\<close>

lemma roundTiesToEven_of_int [simp]: "roundTiesToEven (of_int n) = n"
  by (simp add: roundTiesToEven_def)

lemma float32_zero [simp]: "float32 0 = 0"
  by (simp add: float32_def)

lemma float32_minus: "float32 (- x) = - float32 x"
  by (simp add: float32_def Let_def sgn_minus)

lemma float32_scaled:
  assumes "0 < m"
  shows "float32 (of_int m * 2 ^ e / 2 ^ emin) =
         of_int (roundTiesToEven (of_int m * 2 ^ e / 2 ^ nat (bitlen m + int e - 24))) *
           2 ^ nat (bitlen m + int e - 24) / 2 ^ emin"
proof -
  have s: "sgn (of_int m * 2 ^ e / 2 ^ emin :: real) = 1" using assms by (simp add: sgn_1_pos)
  have y: "\<bar>of_int m * 2 ^ e / 2 ^ emin :: real\<bar> * 2 ^ emin = of_int (m * 2 ^ e)"
    using assms by (simp add: abs_mult)
  have b: "bitlen (m * 2 ^ e) = bitlen m + int e" using assms by simp
  show ?thesis
    unfolding float32_def Let_def y floor_of_int b s by simp
qed

lemma float32_representable:
  assumes "\<bar>m\<bar> < 2 ^ 24"
  shows "float32 (of_int m * 2 ^ e / 2 ^ emin) = of_int m * 2 ^ e / 2 ^ emin"
proof -
  have pos: "float32 (of_int m * 2 ^ e / 2 ^ emin) = of_int m * 2 ^ e / 2 ^ emin"
    if m: "0 < m" "m < 2 ^ 24" for m
  proof -
    define k where "k = nat (bitlen m + int e - 24)"
    have b24: "bitlen m \<le> 24" using m by (simp add: bitlen_le_iff_power)
    have ke: "k \<le> e" using b24 by (simp add: k_def)
    then obtain d where d: "e = d + k" by (metis le_add_diff_inverse2)
    have "(of_int m * 2 ^ e / 2 ^ k :: real) = of_int (m * 2 ^ d)"
      by (simp add: d power_add)
    then have "of_int (roundTiesToEven (of_int m * 2 ^ e / 2 ^ k)) * 2 ^ k / (2 ^ emin :: real) =
          of_int (m * 2 ^ d) * 2 ^ k / 2 ^ emin"
      by (simp only: roundTiesToEven_of_int)
    also have "\<dots> = of_int m * 2 ^ e / 2 ^ emin"
      by (simp add: d power_add)
    finally show ?thesis using float32_scaled[OF m(1), of e] by (simp add: k_def)
  qed
  consider "m = 0" | "0 < m" | "m < 0" by linarith
  then show ?thesis
  proof cases
    case 1
    then show ?thesis by simp
  next
    case 2
    with assms pos[of m] show ?thesis by simp
  next
    case 3
    with assms pos[of "- m"] float32_minus[of "of_int (- m) * 2 ^ e / 2 ^ emin"]
    show ?thesis by simp
  qed
qed

lemma float32_of_int:
  assumes "\<bar>n\<bar> \<le> 2 ^ 24"
  shows "float32 (of_int n) = of_int n"
proof (cases "\<bar>n\<bar> = 2 ^ 24")
  case True
  then consider "n = 2 ^ 24" | "n = - (2 ^ 24)" by linarith
  then show ?thesis
  proof cases
    case 1
    with float32_representable[of "2 ^ 23" 150] show ?thesis by (simp add: emin_def)
  next
    case 2
    with float32_representable[of "- (2 ^ 23)" 150] show ?thesis by (simp add: emin_def)
  qed
next
  case False
  with assms have "\<bar>n\<bar> < 2 ^ 24" by simp
  from float32_representable[OF this, of emin] show ?thesis by simp
qed

lemma float32_16777217: "float32 16777217 = 16777216"
proof -
  have b: "bitlen 16777217 = 25"
    using bitlen_twopow_add_eq[of 1 24] by simp
  have r: "roundTiesToEven (16777217 / 2) = 8388608"
    by (simp add: roundTiesToEven_def Let_def)
  have "(of_int 16777217 * 2 ^ emin / 2 ^ nat (25 + int emin - 24) :: real) = 16777217 / 2"
    by (simp add: emin_def)
  with float32_scaled[of 16777217 emin] b r show ?thesis by (simp add: emin_def)
qed

lemma float32_one: "float32 1 = 1"
  using float32_of_int[of 1] by simp

lemma float32_numeral: "numeral k \<le> (16777216 :: int) \<Longrightarrow> float32 (numeral k) = numeral k"
  using float32_of_int[of "numeral k"] by simp

subsection \<open>Device context and texture manager\<close>

lemma acquireTexture_Inr:
  assumes "acquireTexture tsh ty tm g = Inr (t, tm', g')"
  shows "\<not> managerDisposed tm \<and> \<not> managerDisposed tm' \<and> dom (regions g) \<subseteq> dom (regions g') \<and>
         (\<forall>k. set (freeTextures tm' k) \<subseteq> set (freeTextures tm k)) \<and>
         (t \<in> dom (regions g') \<or> t \<in> set (freeTextures tm (tsh, ty)))"
  using assms
  by (auto simp: acquireTexture_def createMatrixTexture_def split: if_splits list.splits)

lemma acquireTexture_Inr_dom:
  assumes "acquireTexture tsh ty tm g = Inr (t, tm', g')"
    and "\<forall>k. set (freeTextures tm k) \<subseteq> dom (regions g)"
  shows "t \<in> dom (regions g')" and "\<forall>k. set (freeTextures tm' k) \<subseteq> dom (regions g')"
  using acquireTexture_Inr[OF assms(1)] assms(2) by blast+

lemma uploadMatrixToTexture_Inr:
  "uploadMatrixToTexture t r c a g = Inr g' \<Longrightarrow> dom (regions g') = dom (regions g) \<and> t \<in> dom (regions g)"
  by (auto simp: uploadMatrixToTexture_def split: option.splits if_splits)

lemma uploadMatrixToTexture_Inl:
  "uploadMatrixToTexture t r c a g = Inl e \<Longrightarrow> t \<notin> dom (regions g)"
  by (auto simp: uploadMatrixToTexture_def split: option.splits)

subsection \<open>The outcomes of \<open>uploadToGPU\<close>\<close>

lemma uploadToGPU_cases:
  obtains
    (nodata) "texData s i = None" "uploadToGPU E i s = (Inl (NoDataFound i), s)"
  | (resident) td t where "texData s i = Some td" "texture td = Some t" "uploadToGPU E i s = (Inr (), s)"
  | (noacquire) td e where "texData s i = Some td" "texture td = None"
      "acquireTexture (getTextureShapeFromLogicalShape E (shape td)) (texType td) (textureManager s) (gpgpu s) = Inl e"
      "uploadToGPU E i s = (Inl e, s\<lparr>texData := (texData s)(i \<mapsto> td\<lparr>texShape := Some (getTextureShapeFromLogicalShape E (shape td))\<rparr>)\<rparr>)"
  | (empty) td t tm' g' where "texData s i = Some td" "texture td = None" "values_cpu td = None"
      "acquireTexture (getTextureShapeFromLogicalShape E (shape td)) (texType td) (textureManager s) (gpgpu s) = Inr (t, tm', g')"
      "uploadToGPU E i s = (Inr (), s\<lparr>textureManager := tm', gpgpu := g',
          texData := (texData s)(i \<mapsto> td\<lparr>texShape := Some (getTextureShapeFromLogicalShape E (shape td)), texture := Some t\<rparr>)\<rparr>)"
  | (noupload) td t tm' g' v e where "texData s i = Some td" "texture td = None" "values_cpu td = Some v"
      "acquireTexture (getTextureShapeFromLogicalShape E (shape td)) (texType td) (textureManager s) (gpgpu s) = Inr (t, tm', g')"
      "uploadMatrixToTexture t (fst (getTextureShapeFromLogicalShape E (shape td))) (snd (getTextureShapeFromLogicalShape E (shape td)))
          (typedArrayToFloat32 v (dtype td)) g' = Inl e"
      "uploadToGPU E i s = (Inl e, s\<lparr>textureManager := tm', gpgpu := g',
          texData := (texData s)(i \<mapsto> td\<lparr>texShape := Some (getTextureShapeFromLogicalShape E (shape td)), texture := Some t\<rparr>)\<rparr>)"
  | (uploaded) td t tm' g' v g'' where "texData s i = Some td" "texture td = None" "values_cpu td = Some v"
      "acquireTexture (getTextureShapeFromLogicalShape E (shape td)) (texType td) (textureManager s) (gpgpu s) = Inr (t, tm', g')"
      "uploadMatrixToTexture t (fst (getTextureShapeFromLogicalShape E (shape td))) (snd (getTextureShapeFromLogicalShape E (shape td)))
          (typedArrayToFloat32 v (dtype td)) g' = Inr g''"
      "uploadToGPU E i s = (Inr (), s\<lparr>textureManager := tm', gpgpu := g'',
          texData := (texData s)(i \<mapsto> td\<lparr>texShape := Some (getTextureShapeFromLogicalShape E (shape td)), texture := Some t, values_cpu := None\<rparr>)\<rparr>)"
proof (cases "texData s i")
  case None
  then show ?thesis using nodata by (simp add: uploadToGPU_def throwIfNoData_def dom_def)
next
  case td: (Some td)
  show ?thesis
  proof (cases "texture td")
    case (Some t)
    with td resident show ?thesis by (simp add: uploadToGPU_def throwIfNoData_def dom_def)
  next
    case tex: None
    show ?thesis
    proof (cases "acquireTexture (getTextureShapeFromLogicalShape E (shape td)) (texType td)
                    (textureManager s) (gpgpu s)")
      case (Inl e)
      with td tex noacquire[of td e] show ?thesis
        by (simp add: uploadToGPU_def throwIfNoData_def dom_def Let_def)
    next
      case (Inr r)
      obtain t tm' g' where r: "r = (t, tm', g')" by (cases r)
      show ?thesis
      proof (cases "values_cpu td")
        case None
        with td tex Inr r empty[of td t tm' g'] show ?thesis
          by (simp add: uploadToGPU_def throwIfNoData_def dom_def Let_def)
      next
        case v: (Some v)
        show ?thesis
        proof (cases "uploadMatrixToTexture t (fst (getTextureShapeFromLogicalShape E (shape td)))
                        (snd (getTextureShapeFromLogicalShape E (shape td)))
                        (typedArrayToFloat32 v (dtype td)) g'")
          case (Inl e)
          with td tex Inr r v noupload[of td v t tm' g' e] show ?thesis
            by (simp add: uploadToGPU_def throwIfNoData_def dom_def Let_def)
        next
          case g'': (Inr g'')
          with td tex Inr r v uploaded[of td v t tm' g' g''] show ?thesis
            by (simp add: uploadToGPU_def throwIfNoData_def dom_def Let_def)
        qed
      qed
    qed
  qed
qed

subsection \<open>No call removes or replaces an entry of the program cache\<close>

lemma cacheKept_refl: "cacheKept s s"
  by (simp add: cacheKept_def)

lemma cacheKept_trans: "cacheKept s s1 \<Longrightarrow> cacheKept s1 s2 \<Longrightarrow> cacheKept s s2"
  by (simp add: cacheKept_def)

lemma cacheKept_same: "binaryCache s' = binaryCache s \<Longrightarrow> cacheKept s s'"
  by (simp add: cacheKept_def)

lemma cacheKept_seq:
  assumes "cacheKept s (snd m)" and "\<And>x s1. cacheKept s1 (snd (g x s1))"
  shows "cacheKept s (snd (case m of (Inl e, s1) \<Rightarrow> (Inl e, s1) | (Inr x, s1) \<Rightarrow> g x s1))"
proof (cases m)
  case (Pair r s1)
  with assms show ?thesis
    by (cases r) (auto intro: cacheKept_trans)
qed

lemma register_kept: "cacheKept s (snd (register i sh dt s))"
  by (simp add: register_def cacheKept_def)

lemma uploadToGPU_kept: "cacheKept s (snd (uploadToGPU E i s))"
  by (cases rule: uploadToGPU_cases[of s i E]) (simp_all add: cacheKept_def)

lemma cacheOnCPU_kept: "cacheKept s (snd (cacheOnCPU i f s))"
  by (auto simp: cacheOnCPU_def cacheKept_def Let_def split: option.splits sum.splits)

lemma write_op_kept: "cacheKept s (snd (write_op E i v s))"
  unfolding write_op_def Let_def throwIfNoData_def
  by (auto simp: cacheKept_refl cacheKept_same split: option.splits sum.splits
           intro!: cacheKept_trans[OF _ uploadToGPU_kept])

lemma readSync_kept: "cacheKept s (snd (readSync E i s))"
  unfolding readSync_def throwIfNoData_def
  by (auto simp: cacheKept_refl split: option.splits sum.splits
           intro!: cacheKept_seq cacheOnCPU_kept)

lemma read_kept: "cacheKept s (snd (read E i s))"
  unfolding read_def throwIfNoData_def
  by (auto simp: cacheKept_refl split: option.splits sum.splits
           intro!: cacheKept_seq cacheOnCPU_kept readSync_kept)

lemma disposeData_kept: "cacheKept s (snd (disposeData i s))"
  by (auto simp: disposeData_def cacheKept_def split: option.splits)

lemma getTexture_kept: "cacheKept s (snd (getTexture E i s))"
  unfolding getTexture_def
  by (auto simp: cacheKept_refl split: option.splits intro!: cacheKept_seq uploadToGPU_kept)

lemma getTextureData_kept: "cacheKept s (snd (getTextureData E i s))"
  unfolding getTextureData_def
  by (auto simp: cacheKept_refl split: option.splits intro!: cacheKept_seq uploadToGPU_kept)

lemma makeOutputArray_kept: "cacheKept s (snd (makeOutputArray sh dt s))"
  by (auto simp: makeOutputArray_def register_def cacheKept_def Let_def)

lemma uploadInputs_kept: "cacheKept s (snd (uploadInputs E xs s))"
  by (induction xs arbitrary: s) (auto simp: cacheKept_refl intro!: cacheKept_seq uploadToGPU_kept)

lemma getAndSaveBinary_kept: "cacheKept s (snd (getAndSaveBinary key f s))"
  by (auto simp: getAndSaveBinary_def cacheKept_def map_add_def split: option.splits sum.splits prod.splits)

lemma compileAndRun_kept: "cacheKept s (snd (compileAndRun E prog inputs output s))"
  unfolding compileAndRun_def Let_def
  by (auto simp: cacheKept_refl cacheKept_same split: option.splits list.splits sum.splits
           intro!: cacheKept_seq uploadToGPU_kept uploadInputs_kept makeOutputArray_kept
                   getAndSaveBinary_kept)

lemma copy2D_kept: "cacheKept s (snd (copy2D E src ssz dst dsz s))"
  by (simp add: copy2D_def compileAndRun_kept)

lemma clone_kept: "cacheKept s (snd (clone E x s))"
  unfolding clone_def throwIfNoData_def Let_def
  by (auto simp: cacheKept_refl split: option.splits
           intro!: cacheKept_seq uploadToGPU_kept makeOutputArray_kept copy2D_kept)

lemma fromPixels_kept: "cacheKept s (snd (fromPixels E px n s))"
  unfolding fromPixels_def
  by (auto simp: cacheKept_refl cacheKept_same split: option.splits sum.splits
           intro!: cacheKept_seq makeOutputArray_kept disposeData_kept
                   cacheKept_trans[OF _ getTexture_kept] cacheKept_trans[OF _ compileAndRun_kept])

lemma binaryOpInto_kept: "cacheKept s (snd (binaryOpInto E opc dt a b s))"
  unfolding binaryOpInto_def
  by (auto simp: cacheKept_refl split: sum.splits
           intro!: cacheKept_seq makeOutputArray_kept compileAndRun_kept)

lemma binaryOpDefault_kept: "cacheKept s (snd (binaryOpDefault E opc a b s))"
  unfolding binaryOpDefault_def
  by (auto simp: cacheKept_refl split: sum.splits intro!: compileAndRun_kept)

lemmas binaryOp_defs =
  multiply_def equal_op_def notEqual_def less_op_def lessEqual_def greater_def greaterEqual_def
  logicalAnd_def logicalOr_def minimum_def maximum_def divide_op_def add_def subtract_def pow_def

lemma binaryOp_kept: "cacheKept s (snd (binaryOp E bop a b s))"
  by (cases bop) (simp_all add: binaryOp_defs binaryOpInto_kept binaryOpDefault_kept)

lemma dispose_kept: "cacheKept s (dispose s)"
  by (simp add: dispose_def Let_def cacheKept_def)

lemma step_kept: "cacheKept s (step E c s)"
  by (cases c)
     (simp_all add: register_kept fromPixels_kept write_op_kept readSync_kept read_kept
        disposeData_kept getTexture_kept getTextureData_kept clone_kept makeOutputArray_kept
        compileAndRun_kept binaryOp_kept dispose_kept)

lemma run_kept: "cacheKept s (run E cs s)"
  by (induction cs arbitrary: s) (auto simp: cacheKept_refl intro: cacheKept_trans step_kept)

text \<open>Claim C2. Once \<open>getAndSaveBinary\<close> has returned a binary for a key, every later
  call with that key returns the same binary and leaves the whole state as it is,
  whatever factory it is given, so the factory is not run again; this holds after any
  sequence of calls on the backend, \<open>dispose\<close> included, and no call removes or replaces
  an entry of the cache.\<close>

theorem getAndSaveBinary_reuses_cached_binary:
  assumes "getAndSaveBinary key getBinary s = (Inr b, s1)"
  shows "map_of (binaryCache s1) key = Some b \<and>
         getAndSaveBinary key getBinary' (run E cs s1) = (Inr b, run E cs s1) \<and>
         (\<forall>k c. map_of (binaryCache s) k = Some c \<longrightarrow>
            map_of (binaryCache (run E cs s1)) k = Some c)"
proof -
  have 1: "map_of (binaryCache s1) key = Some b"
    using assms
    by (auto simp: getAndSaveBinary_def map_add_def split: option.splits sum.splits prod.splits)
  have "cacheKept s1 (run E cs s1)" by (rule run_kept)
  with 1 have 2: "map_of (binaryCache (run E cs s1)) key = Some b"
    by (simp add: cacheKept_def)
  have "cacheKept s s1" using getAndSaveBinary_kept[of s key getBinary] assms by simp
  then have 3: "cacheKept s (run E cs s1)" using run_kept cacheKept_trans by blast
  from 1 2 3 show ?thesis by (simp add: getAndSaveBinary_def cacheKept_def)
qed

theorem getAndSaveBinary_reuses_cached_binary_witness:
  "getAndSaveBinary ''NEG'' (\<lambda>g. (Inl (ProgramError ''never run''), g))
     (run sampleExternals [Register 1 [3] Float32, Dispose]
        (snd (getAndSaveBinary ''NEG'' (\<lambda>g. (Inr sampleBinary, g)) defaultBackend)))
   = (Inr sampleBinary,
      run sampleExternals [Register 1 [3] Float32, Dispose]
        (snd (getAndSaveBinary ''NEG'' (\<lambda>g. (Inr sampleBinary, g)) defaultBackend)))"
proof -
  have "getAndSaveBinary ''NEG'' (\<lambda>g. (Inr sampleBinary, g)) defaultBackend =
        (Inr sampleBinary, snd (getAndSaveBinary ''NEG'' (\<lambda>g. (Inr sampleBinary, g)) defaultBackend))"
    by (simp add: getAndSaveBinary_def defaultBackend_def)
  from getAndSaveBinary_reuses_cached_binary[OF this] show ?thesis by blast
qed

subsection \<open>Every call keeps the invariant of delayed storage mode\<close>

lemmas inv_defs = delayedInvariant_def poolAllocated_def noBothCopies_def

lemma inv_seq:
  assumes "delayedInvariant (snd m)" and "\<And>x s1. delayedInvariant s1 \<Longrightarrow> delayedInvariant (snd (g x s1))"
  shows "delayedInvariant (snd (case m of (Inl e, s1) \<Rightarrow> (Inl e, s1) | (Inr x, s1) \<Rightarrow> g x s1))"
proof (cases m)
  case (Pair r s1)
  with assms show ?thesis by (cases r) auto
qed

lemma register_inv: "delayedInvariant s \<Longrightarrow> delayedInvariant (snd (register i sh dt s))"
  by (auto simp: register_def inv_defs simp del: split_paired_All domIff)

lemma inv_attach:
  assumes "delayedInvariant s"
    and "\<forall>k. set (freeTextures tm' k) \<subseteq> dom (regions g')"
    and "dom (regions (gpgpu s)) \<subseteq> dom (regions g')"
    and "t \<in> dom (regions g')" and "texture td' = Some t" and "values_cpu td' = None"
    and "\<not> managerDisposed (textureManager s)"
  shows "delayedInvariant (s\<lparr>textureManager := tm', gpgpu := g', texData := (texData s)(i \<mapsto> td')\<rparr>)"
  using assms by (auto simp: inv_defs simp del: split_paired_All domIff; blast)

lemma uploadToGPU_inv: "delayedInvariant s \<Longrightarrow> delayedInvariant (snd (uploadToGPU E i s))"
proof (cases rule: uploadToGPU_cases[of s i E])
  case (empty td t tm' g')
  assume inv: "delayedInvariant s"
  then have pool: "\<forall>k. set (freeTextures (textureManager s) k) \<subseteq> dom (regions (gpgpu s))"
    using acquireTexture_Inr[OF empty(4)] by (simp add: inv_defs)
  show ?thesis
    unfolding empty(5) snd_conv
    by (rule inv_attach[OF inv acquireTexture_Inr_dom(2)[OF empty(4) pool] _
          acquireTexture_Inr_dom(1)[OF empty(4) pool]])
       (use acquireTexture_Inr[OF empty(4)] empty(3) in auto)
next
  case (noupload td t tm' g' v e)
  assume inv: "delayedInvariant s"
  then have pool: "\<forall>k. set (freeTextures (textureManager s) k) \<subseteq> dom (regions (gpgpu s))"
    using acquireTexture_Inr[OF noupload(4)] by (simp add: inv_defs)
  from acquireTexture_Inr_dom(1)[OF noupload(4) pool] uploadMatrixToTexture_Inl[OF noupload(5)]
  show ?thesis by simp
next
  case (uploaded td t tm' g' v g'')
  assume inv: "delayedInvariant s"
  then have pool: "\<forall>k. set (freeTextures (textureManager s) k) \<subseteq> dom (regions (gpgpu s))"
    using acquireTexture_Inr[OF uploaded(4)] by (simp add: inv_defs)
  have d: "dom (regions g'') = dom (regions g')"
    using uploadMatrixToTexture_Inr[OF uploaded(5)] by simp
  show ?thesis
    unfolding uploaded(6) snd_conv
    by (rule inv_attach[OF inv])
       (use acquireTexture_Inr[OF uploaded(4)] acquireTexture_Inr_dom[OF uploaded(4) pool] d in auto)
qed (auto simp: inv_defs simp del: split_paired_All domIff)

lemma releaseTexture_fields [simp]:
  "managerDisposed (releaseTexture t k ty tm) = managerDisposed tm"
  "freeTextures (releaseTexture t k ty tm) k' =
     (if k' = (k, ty) then freeTextures tm k' @ [t] else freeTextures tm k')"
  by (auto simp: releaseTexture_def)

lemma cacheOnCPU_inv: "delayedInvariant s \<Longrightarrow> delayedInvariant (snd (cacheOnCPU i f s))"
  unfolding cacheOnCPU_def Let_def
  by (auto simp: inv_defs split: option.splits simp del: split_paired_All domIff; blast)

lemma write_op_inv: "delayedInvariant s \<Longrightarrow> delayedInvariant (snd (write_op E i v s))"
  unfolding write_op_def Let_def throwIfNoData_def
  by (auto simp: inv_defs split: option.splits simp del: split_paired_All domIff; blast)

lemma readSync_inv: "delayedInvariant s \<Longrightarrow> delayedInvariant (snd (readSync E i s))"
  unfolding readSync_def throwIfNoData_def
  by (auto split: option.splits sum.splits intro!: inv_seq cacheOnCPU_inv)

lemma read_inv: "delayedInvariant s \<Longrightarrow> delayedInvariant (snd (read E i s))"
  unfolding read_def throwIfNoData_def
  by (auto split: option.splits sum.splits intro!: inv_seq cacheOnCPU_inv readSync_inv)

lemma disposeData_inv: "delayedInvariant s \<Longrightarrow> delayedInvariant (snd (disposeData i s))"
  unfolding disposeData_def
  by (auto simp: inv_defs split: option.splits simp del: split_paired_All domIff; blast)

lemma getTexture_inv: "delayedInvariant s \<Longrightarrow> delayedInvariant (snd (getTexture E i s))"
  unfolding getTexture_def
  by (auto split: option.splits intro!: inv_seq uploadToGPU_inv)

lemma getTextureData_inv: "delayedInvariant s \<Longrightarrow> delayedInvariant (snd (getTextureData E i s))"
  unfolding getTextureData_def
  by (auto split: option.splits intro!: inv_seq uploadToGPU_inv)

lemma makeOutputArray_inv: "delayedInvariant s \<Longrightarrow> delayedInvariant (snd (makeOutputArray sh dt s))"
  by (auto simp: makeOutputArray_def register_def Let_def inv_defs simp del: split_paired_All domIff)

lemma uploadInputs_inv: "delayedInvariant s \<Longrightarrow> delayedInvariant (snd (uploadInputs E xs s))"
  by (induction xs arbitrary: s) (auto intro!: inv_seq uploadToGPU_inv)

lemma inv_gpgpu_upd:
  assumes "delayedInvariant s" and "dom (regions g') = dom (regions (gpgpu s))"
  shows "delayedInvariant (s\<lparr>gpgpu := g'\<rparr>)"
    and "delayedInvariant (s\<lparr>gpgpu := g', binaryCache := c\<rparr>)"
  using assms by (simp_all add: inv_defs)

lemma compileProgram_regions: "regions (snd (compileProgram E prog ins out g)) = regions g"
  by (simp add: compileProgram_def createProgram_def split: sum.splits)

lemma getAndSaveBinary_inv:
  assumes "delayedInvariant s"
  shows "delayedInvariant (snd (getAndSaveBinary key (compileProgram E prog ins out) s))"
proof (cases "map_of (binaryCache s) key")
  case (Some b)
  with assms show ?thesis by (simp add: getAndSaveBinary_def)
next
  case None
  obtain r g' where c: "compileProgram E prog ins out (gpgpu s) = (r, g')"
    by (cases "compileProgram E prog ins out (gpgpu s)")
  then have "dom (regions g') = dom (regions (gpgpu s))"
    using compileProgram_regions[of E prog ins out "gpgpu s"] by simp
  with assms None c show ?thesis
    by (cases r) (simp_all add: getAndSaveBinary_def inv_gpgpu_upd)
qed

lemma runProgram_inv:
  "runProgram E b ins out (gpgpu s) = Inr g' \<Longrightarrow> delayedInvariant s \<Longrightarrow> delayedInvariant (s\<lparr>gpgpu := g'\<rparr>)"
  by (rule inv_gpgpu_upd)
     (auto simp: runProgram_def split: option.splits dest!: uploadMatrixToTexture_Inr)

lemma compileAndRun_inv:
  "delayedInvariant s \<Longrightarrow> delayedInvariant (snd (compileAndRun E prog inputs output s))"
  unfolding compileAndRun_def Let_def
  by (auto split: option.splits list.splits sum.splits
           intro!: inv_seq uploadToGPU_inv uploadInputs_inv makeOutputArray_inv
                   getAndSaveBinary_inv runProgram_inv)

lemma copy2D_inv: "delayedInvariant s \<Longrightarrow> delayedInvariant (snd (copy2D E src ssz dst dsz s))"
  by (simp add: copy2D_def compileAndRun_inv)

lemma clone_inv: "delayedInvariant s \<Longrightarrow> delayedInvariant (snd (clone E x s))"
  unfolding clone_def throwIfNoData_def Let_def
  by (auto split: option.splits
           intro!: inv_seq uploadToGPU_inv makeOutputArray_inv copy2D_inv)

lemma inv_texType_upd:
  assumes "delayedInvariant s" and "texData s i = Some td"
  shows "delayedInvariant (s\<lparr>texData := (texData s)(i \<mapsto> td\<lparr>texType := ty\<rparr>)\<rparr>)"
  using assms by (auto simp: inv_defs simp del: split_paired_All domIff)

lemma uploadPixelData_inv:
  "uploadPixelDataToTexture t px (gpgpu s) = Inr g' \<Longrightarrow> delayedInvariant s \<Longrightarrow>
   delayedInvariant (s\<lparr>gpgpu := g'\<rparr>)"
  by (rule inv_gpgpu_upd)
     (auto simp: uploadPixelDataToTexture_def split: option.splits dest!: uploadMatrixToTexture_Inr)

lemma fromPixels_inv: "delayedInvariant s \<Longrightarrow> delayedInvariant (snd (fromPixels E px n s))"
  unfolding fromPixels_def
  by (auto split: option.splits sum.splits
           intro!: inv_seq makeOutputArray_inv disposeData_inv getTexture_inv compileAndRun_inv
                   inv_texType_upd uploadPixelData_inv)

lemma binaryOpInto_inv:
  "delayedInvariant s \<Longrightarrow> delayedInvariant (snd (binaryOpInto E opc dt a b s))"
  unfolding binaryOpInto_def
  by (auto split: sum.splits intro!: inv_seq makeOutputArray_inv compileAndRun_inv)

lemma binaryOpDefault_inv:
  "delayedInvariant s \<Longrightarrow> delayedInvariant (snd (binaryOpDefault E opc a b s))"
  unfolding binaryOpDefault_def
  by (auto split: sum.splits intro!: compileAndRun_inv)

lemma binaryOp_inv: "delayedInvariant s \<Longrightarrow> delayedInvariant (snd (binaryOp E bop a b s))"
  by (cases bop) (simp_all add: binaryOp_defs binaryOpInto_inv binaryOpDefault_inv)

lemma textureManager_dispose_disposed:
  "managerDisposed (fst (textureManager_dispose tm g))"
  by (simp add: textureManager_dispose_def)

lemma dispose_inv: "delayedInvariant s \<Longrightarrow> delayedInvariant (dispose s)"
  by (simp add: dispose_def Let_def inv_defs textureManager_dispose_disposed)

lemma step_inv: "delayedInvariant s \<Longrightarrow> delayedInvariant (step E c s)"
  by (cases c)
     (simp_all add: register_inv fromPixels_inv write_op_inv readSync_inv read_inv
        disposeData_inv getTexture_inv getTextureData_inv clone_inv makeOutputArray_inv
        compileAndRun_inv binaryOp_inv dispose_inv)

lemma run_inv: "delayedInvariant s \<Longrightarrow> delayedInvariant (run E cs s)"
  by (induction cs arbitrary: s) (simp_all add: step_inv)

subsection \<open>An attached texture comes with its device shape\<close>

lemma shaped_seq:
  assumes "deviceShaped (snd m)" and "\<And>x s1. deviceShaped s1 \<Longrightarrow> deviceShaped (snd (g x s1))"
  shows "deviceShaped (snd (case m of (Inl e, s1) \<Rightarrow> (Inl e, s1) | (Inr x, s1) \<Rightarrow> g x s1))"
proof (cases m)
  case (Pair r s1)
  with assms show ?thesis by (cases r) auto
qed

lemma shaped_texData_same: "texData s' = texData s \<Longrightarrow> deviceShaped s' = deviceShaped s"
  by (simp add: deviceShaped_def)

lemma register_shaped: "deviceShaped s \<Longrightarrow> deviceShaped (snd (register i sh dt s))"
  by (auto simp: register_def deviceShaped_def)

lemma uploadToGPU_shaped: "deviceShaped s \<Longrightarrow> deviceShaped (snd (uploadToGPU E i s))"
  by (cases rule: uploadToGPU_cases[of s i E]) (auto simp: deviceShaped_def)

lemma cacheOnCPU_shaped: "deviceShaped s \<Longrightarrow> deviceShaped (snd (cacheOnCPU i f s))"
  unfolding cacheOnCPU_def Let_def
  by (auto simp: deviceShaped_def split: option.splits)

lemma write_op_shaped: "deviceShaped s \<Longrightarrow> deviceShaped (snd (write_op E i v s))"
  unfolding write_op_def Let_def throwIfNoData_def
  by (auto split: option.splits intro!: uploadToGPU_shaped) (auto simp: deviceShaped_def)

lemma readSync_shaped: "deviceShaped s \<Longrightarrow> deviceShaped (snd (readSync E i s))"
  unfolding readSync_def throwIfNoData_def
  by (auto split: option.splits sum.splits intro!: shaped_seq cacheOnCPU_shaped)

lemma read_shaped: "deviceShaped s \<Longrightarrow> deviceShaped (snd (read E i s))"
  unfolding read_def throwIfNoData_def
  by (auto split: option.splits sum.splits intro!: shaped_seq cacheOnCPU_shaped readSync_shaped)

lemma disposeData_shaped: "deviceShaped s \<Longrightarrow> deviceShaped (snd (disposeData i s))"
  unfolding disposeData_def
  by (auto simp: deviceShaped_def split: option.splits)

lemma getTexture_shaped: "deviceShaped s \<Longrightarrow> deviceShaped (snd (getTexture E i s))"
  unfolding getTexture_def
  by (auto split: option.splits intro!: shaped_seq uploadToGPU_shaped)

lemma getTextureData_shaped: "deviceShaped s \<Longrightarrow> deviceShaped (snd (getTextureData E i s))"
  unfolding getTextureData_def
  by (auto split: option.splits intro!: shaped_seq uploadToGPU_shaped)

lemma makeOutputArray_shaped: "deviceShaped s \<Longrightarrow> deviceShaped (snd (makeOutputArray sh dt s))"
  by (auto simp: makeOutputArray_def register_def Let_def deviceShaped_def)

lemma uploadInputs_shaped: "deviceShaped s \<Longrightarrow> deviceShaped (snd (uploadInputs E xs s))"
  by (induction xs arbitrary: s) (auto intro!: shaped_seq uploadToGPU_shaped)

lemma getAndSaveBinary_shaped:
  "deviceShaped s \<Longrightarrow> deviceShaped (snd (getAndSaveBinary key f s))"
  by (auto simp: getAndSaveBinary_def deviceShaped_def split: option.splits sum.splits prod.splits)

lemma shaped_gpgpu_upd: "deviceShaped s \<Longrightarrow> deviceShaped (s\<lparr>gpgpu := g'\<rparr>)"
  by (simp add: deviceShaped_def)

lemma compileAndRun_shaped:
  "deviceShaped s \<Longrightarrow> deviceShaped (snd (compileAndRun E prog inputs output s))"
  unfolding compileAndRun_def Let_def
  by (auto split: option.splits list.splits sum.splits
           intro!: shaped_seq uploadToGPU_shaped uploadInputs_shaped makeOutputArray_shaped
                   getAndSaveBinary_shaped shaped_gpgpu_upd)

lemma copy2D_shaped: "deviceShaped s \<Longrightarrow> deviceShaped (snd (copy2D E src ssz dst dsz s))"
  by (simp add: copy2D_def compileAndRun_shaped)

lemma clone_shaped: "deviceShaped s \<Longrightarrow> deviceShaped (snd (clone E x s))"
  unfolding clone_def throwIfNoData_def Let_def
  by (auto split: option.splits
           intro!: shaped_seq uploadToGPU_shaped makeOutputArray_shaped copy2D_shaped)

lemma shaped_texType_upd:
  assumes "deviceShaped s" and "texData s i = Some td"
  shows "deviceShaped (s\<lparr>texData := (texData s)(i \<mapsto> td\<lparr>texType := ty\<rparr>)\<rparr>)"
  using assms by (auto simp: deviceShaped_def)

lemma fromPixels_shaped: "deviceShaped s \<Longrightarrow> deviceShaped (snd (fromPixels E px n s))"
  unfolding fromPixels_def
  by (auto split: option.splits sum.splits
           intro!: shaped_seq makeOutputArray_shaped disposeData_shaped getTexture_shaped
                   compileAndRun_shaped shaped_texType_upd shaped_gpgpu_upd)

lemma binaryOpInto_shaped:
  "deviceShaped s \<Longrightarrow> deviceShaped (snd (binaryOpInto E opc dt a b s))"
  unfolding binaryOpInto_def
  by (auto split: sum.splits intro!: shaped_seq makeOutputArray_shaped compileAndRun_shaped)

lemma binaryOpDefault_shaped:
  "deviceShaped s \<Longrightarrow> deviceShaped (snd (binaryOpDefault E opc a b s))"
  unfolding binaryOpDefault_def
  by (auto split: sum.splits intro!: compileAndRun_shaped)

lemma binaryOp_shaped: "deviceShaped s \<Longrightarrow> deviceShaped (snd (binaryOp E bop a b s))"
  by (cases bop) (simp_all add: binaryOp_defs binaryOpInto_shaped binaryOpDefault_shaped)

lemma dispose_shaped: "deviceShaped s \<Longrightarrow> deviceShaped (dispose s)"
  by (simp add: dispose_def Let_def deviceShaped_def)

lemma step_shaped: "deviceShaped s \<Longrightarrow> deviceShaped (step E c s)"
  by (cases c)
     (simp_all add: register_shaped fromPixels_shaped write_op_shaped readSync_shaped read_shaped
        disposeData_shaped getTexture_shaped getTextureData_shaped clone_shaped
        makeOutputArray_shaped compileAndRun_shaped binaryOp_shaped dispose_shaped)

lemma run_shaped: "deviceShaped s \<Longrightarrow> deviceShaped (run E cs s)"
  by (induction cs arbitrary: s) (simp_all add: step_shaped)

lemma defaultBackend_shaped: "deviceShaped defaultBackend" "deviceShaped immediateBackend"
  by (simp_all add: deviceShaped_def defaultBackend_def immediateBackend_def)

subsection \<open>Residency\<close>

text \<open>Claim C4. \<open>uploadToGPU\<close> on a handle whose record has a device texture returns at
  once and changes nothing; so a second call right after a successful first one on a
  registered handle returns the state it was given: the texture manager and the device
  context are as before, and no texture is acquired.\<close>

theorem uploadToGPU_twice_is_noop:
  "(\<forall>td. texData s i = Some td \<longrightarrow> texture td \<noteq> None \<longrightarrow> uploadToGPU E i s = (Inr (), s)) \<and>
   (\<forall>s1. texData s i \<noteq> None \<longrightarrow> uploadToGPU E i s = (Inr (), s1) \<longrightarrow>
      uploadToGPU E i s1 = (Inr (), s1) \<and>
      textureManager (snd (uploadToGPU E i s1)) = textureManager s1 \<and>
      gpgpu (snd (uploadToGPU E i s1)) = gpgpu s1)"
proof -
  have attached: "uploadToGPU E i s' = (Inr (), s')"
    if "texData s' i = Some td" "texture td \<noteq> None" for s' td
    using that by (auto simp: uploadToGPU_def throwIfNoData_def dom_def)
  have "uploadToGPU E i s1 = (Inr (), s1)" if "uploadToGPU E i s = (Inr (), s1)" for s1
    using that
    by (cases rule: uploadToGPU_cases[of s i E]) (auto intro: attached)
  with attached show ?thesis by simp
qed

theorem uploadToGPU_twice_is_noop_witness:
  "fst (uploadToGPU sampleExternals 1
          (run sampleExternals [Register 1 [3] Float32, Write 1 (Some [1, 2, 3])] defaultBackend))
     = Inr () \<and>
   uploadToGPU sampleExternals 1
     (snd (uploadToGPU sampleExternals 1
          (run sampleExternals [Register 1 [3] Float32, Write 1 (Some [1, 2, 3])] defaultBackend)))
     = (Inr (),
        snd (uploadToGPU sampleExternals 1
          (run sampleExternals [Register 1 [3] Float32, Write 1 (Some [1, 2, 3])] defaultBackend)))"
proof -
  let ?s = "run sampleExternals [Register 1 [3] Float32, Write 1 (Some [1, 2, 3])] defaultBackend"
  have reg: "texData ?s 1 \<noteq> None"
    by (simp add: register_def write_op_def throwIfNoData_def defaultBackend_def Let_def)
  have ok: "fst (uploadToGPU sampleExternals 1 ?s) = Inr ()"
    by (simp add: register_def write_op_def throwIfNoData_def defaultBackend_def Let_def
          uploadToGPU_def sampleExternals_def acquireTexture_def newTextureManager_def
          newGPGPUContext_def createMatrixTexture_def uploadMatrixToTexture_def)
  then have "uploadToGPU sampleExternals 1 ?s = (Inr (), snd (uploadToGPU sampleExternals 1 ?s))"
    by (simp add: prod_eq_iff)
  with uploadToGPU_twice_is_noop[of ?s 1 sampleExternals] reg ok show ?thesis by blast
qed

subsection \<open>Evaluation of the sample states\<close>

lemma new_backend_default: "newMathBackendWebGL 1 None True True = Inr defaultBackend"
  by (simp add: newMathBackendWebGL_def defaultBackend_def)

lemmas eval_defs =
  register_def write_op_def throwIfNoData_def defaultBackend_def immediateBackend_def Let_def
  uploadToGPU_def sampleExternals_def acquireTexture_def newTextureManager_def
  newGPGPUContext_def createMatrixTexture_def uploadMatrixToTexture_def getTexture_def
  typedArrayToFloat32_def float32_one float32_numeral

lemma residentBackend_record:
  "texData residentBackend 1 =
     Some \<lparr>shape = [3], dtype = Float32, values_cpu = None, texture = Some 0,
           texShape = Some (1, 3), texType = FLOAT\<rparr>"
  by (simp add: residentBackend_def eval_defs)

subsection \<open>Disposal of a handle\<close>

text \<open>Claim C10. \<open>disposeData\<close> on a handle that has no record returns normally and leaves
  the state as it is; on a registered handle it deletes the record and, when a device
  texture is attached, puts that texture into the pool of the texture manager under the
  record's device shape and texture type; a second \<open>disposeData\<close> after a successful one
  changes nothing.\<close>

theorem disposeData_silent_and_idempotent:
  "(texData s i = None \<longrightarrow> disposeData i s = (Inr (), s)) \<and>
   (\<forall>td. texData s i = Some td \<longrightarrow> (texture td \<noteq> None \<longrightarrow> texShape td \<noteq> None) \<longrightarrow>
      fst (disposeData i s) = Inr () \<and>
      texData (snd (disposeData i s)) = (texData s)(i := None) \<and>
      (texture td = None \<longrightarrow> textureManager (snd (disposeData i s)) = textureManager s) \<and>
      (\<forall>t. texture td = Some t \<longrightarrow>
         (\<exists>tsh. texShape td = Some tsh \<and>
            textureManager (snd (disposeData i s)) =
              releaseTexture t tsh (texType td) (textureManager s) \<and>
            t \<in> set (freeTextures (textureManager (snd (disposeData i s))) (tsh, texType td))))) \<and>
   (fst (disposeData i s) = Inr () \<longrightarrow>
      disposeData i (snd (disposeData i s)) = (Inr (), snd (disposeData i s)))"
  by (auto simp: disposeData_def split: option.splits)

theorem disposeData_silent_and_idempotent_witness:
  "disposeData 2 residentBackend = (Inr (), residentBackend) \<and>
   fst (disposeData 1 residentBackend) = Inr () \<and>
   texData (snd (disposeData 1 residentBackend)) 1 = None \<and>
   0 \<in> set (freeTextures (textureManager (snd (disposeData 1 residentBackend))) ((1, 3), FLOAT)) \<and>
   disposeData 1 (snd (disposeData 1 residentBackend)) = (Inr (), snd (disposeData 1 residentBackend))"
proof -
  have sh: "deviceShaped residentBackend"
    unfolding residentBackend_def by (rule run_shaped) (rule defaultBackend_shaped)
  have un: "texData residentBackend 2 = None"
    by (simp add: residentBackend_def eval_defs)
  from disposeData_silent_and_idempotent[of residentBackend 2] un
  have a: "disposeData 2 residentBackend = (Inr (), residentBackend)" by blast
  from sh residentBackend_record
  have "texture td \<noteq> None \<longrightarrow> texShape td \<noteq> None" if "texData residentBackend 1 = Some td" for td
    using that unfolding deviceShaped_def by blast
  with disposeData_silent_and_idempotent[of residentBackend 1] residentBackend_record
  show ?thesis using a by auto
qed

subsection \<open>Writing host values\<close>

text \<open>Claim C7, as stated, fails in immediate storage mode (\<open>delayedStorage = false\<close>):
  \<open>write\<close> ends with \<open>uploadToGPU\<close>, so the record of the handle has a device texture
  and no host values after the call.\<close>

theorem write_immediate_mode_counterexample:
  "texData registeredImmediate 1 =
     Some \<lparr>shape = [3], dtype = Float32, values_cpu = None, texture = None,
           texShape = None, texType = FLOAT\<rparr> \<and>
   fst (write_op sampleExternals 1 (Some [1, 2, 3]) registeredImmediate) = Inr () \<and>
   texData (snd (write_op sampleExternals 1 (Some [1, 2, 3]) registeredImmediate)) 1 =
     Some \<lparr>shape = [3], dtype = Float32, values_cpu = None, texture = Some 0,
           texShape = Some (1, 3), texType = FLOAT\<rparr>"
  by (simp add: registeredImmediate_def eval_defs)

text \<open>Claim C7, amended. For a registered handle whose record, when it has a device
  texture, has the device shape of that texture: \<open>write\<close> with \<open>null\<close> throws and leaves
  the state as it is, in either storage mode. In delayed storage mode, \<open>write\<close> with values
  that are not \<open>null\<close> returns normally; a device texture attached to the record goes
  into the pool of the texture manager under the record's device shape and texture type
  and the record's texture and device shape become \<open>null\<close>; the record holds the given
  values; the device context is untouched. In immediate storage mode, when \<open>write\<close> with
  values that are not \<open>null\<close> returns normally, the record has a device texture and no
  host values.\<close>

theorem write_releases_and_stores:
  assumes "texData s i = Some td" and "texture td \<noteq> None \<longrightarrow> texShape td \<noteq> None"
  shows "write_op E i None s = (Inl ValuesNull, s) \<and>
         (delayedStorage s \<longrightarrow>
            fst (write_op E i (Some v) s) = Inr () \<and>
            texData (snd (write_op E i (Some v) s)) =
              (texData s)(i \<mapsto> (if texture td = None then td\<lparr>values_cpu := Some v\<rparr>
                                 else td\<lparr>texture := None, texShape := None, values_cpu := Some v\<rparr>)) \<and>
            (texture td = None \<longrightarrow>
               textureManager (snd (write_op E i (Some v) s)) = textureManager s) \<and>
            (\<forall>t. texture td = Some t \<longrightarrow>
               (\<exists>tsh. texShape td = Some tsh \<and>
                  textureManager (snd (write_op E i (Some v) s)) =
                    releaseTexture t tsh (texType td) (textureManager s) \<and>
                  t \<in> set (freeTextures (textureManager (snd (write_op E i (Some v) s)))
                             (tsh, texType td)))) \<and>
            gpgpu (snd (write_op E i (Some v) s)) = gpgpu s) \<and>
         (\<not> delayedStorage s \<longrightarrow> fst (write_op E i (Some v) s) = Inr () \<longrightarrow>
            (\<exists>td' t. texData (snd (write_op E i (Some v) s)) i = Some td' \<and>
               values_cpu td' = None \<and> texture td' = Some t))"
proof -
  have null: "write_op E i None s = (Inl ValuesNull, s)"
    by (simp add: write_op_def)
  have delayed: "delayedStorage s \<Longrightarrow>
            fst (write_op E i (Some v) s) = Inr () \<and>
            texData (snd (write_op E i (Some v) s)) =
              (texData s)(i \<mapsto> (if texture td = None then td\<lparr>values_cpu := Some v\<rparr>
                                 else td\<lparr>texture := None, texShape := None, values_cpu := Some v\<rparr>)) \<and>
            (texture td = None \<longrightarrow>
               textureManager (snd (write_op E i (Some v) s)) = textureManager s) \<and>
            (\<forall>t. texture td = Some t \<longrightarrow>
               (\<exists>tsh. texShape td = Some tsh \<and>
                  textureManager (snd (write_op E i (Some v) s)) =
                    releaseTexture t tsh (texType td) (textureManager s) \<and>
                  t \<in> set (freeTextures (textureManager (snd (write_op E i (Some v) s)))
                             (tsh, texType td)))) \<and>
            gpgpu (snd (write_op E i (Some v) s)) = gpgpu s"
    using assms
    by (auto simp: write_op_def throwIfNoData_def Let_def dom_def split: option.splits)
  have immediate: "\<exists>td' t. texData (snd (write_op E i (Some v) s)) i = Some td' \<and>
               values_cpu td' = None \<and> texture td' = Some t"
    if nd: "\<not> delayedStorage s" and ok: "fst (write_op E i (Some v) s) = Inr ()"
  proof -
    obtain s1 td1 where w: "write_op E i (Some v) s = uploadToGPU E i s1"
      and td1: "texData s1 i = Some td1" "texture td1 = None" "values_cpu td1 = Some v"
      using assms nd
      by (cases "texture td")
         (auto simp: write_op_def throwIfNoData_def Let_def dom_def split: option.splits)
    from ok w have ok': "fst (uploadToGPU E i s1) = Inr ()" by simp
    show ?thesis
      unfolding w using td1 ok'
      by (cases rule: uploadToGPU_cases[of s1 i E]) auto
  qed
  from null delayed immediate show ?thesis by blast
qed

theorem write_releases_and_stores_witness:
  "fst (write_op sampleExternals 1 (Some [4, 5, 6]) residentBackend) = Inr () \<and>
   texData (snd (write_op sampleExternals 1 (Some [4, 5, 6]) residentBackend)) 1 =
     Some \<lparr>shape = [3], dtype = Float32, values_cpu = Some [4, 5, 6], texture = None,
           texShape = None, texType = FLOAT\<rparr> \<and>
   0 \<in> set (freeTextures (textureManager (snd (write_op sampleExternals 1 (Some [4, 5, 6]) residentBackend)))
              ((1, 3), FLOAT)) \<and>
   write_op sampleExternals 1 None residentBackend = (Inl ValuesNull, residentBackend) \<and>
   (\<exists>td' t. texData (snd (write_op sampleExternals 1 (Some [1, 2, 3]) registeredImmediate)) 1 = Some td' \<and>
      values_cpu td' = None \<and> texture td' = Some t)"
proof -
  have d: "delayedStorage residentBackend"
    by (simp add: residentBackend_def eval_defs)
  have sh: "texture \<lparr>shape = [3], dtype = Float32, values_cpu = None, texture = Some 0,
           texShape = Some (1, 3), texType = FLOAT\<rparr> \<noteq> None \<longrightarrow>
        texShape \<lparr>shape = [3], dtype = Float32, values_cpu = None, texture = Some 0,
           texShape = Some (1, 3), texType = FLOAT\<rparr> \<noteq> None" by simp
  have reg: "texData registeredImmediate 1 =
     Some \<lparr>shape = [3], dtype = Float32, values_cpu = None, texture = None,
           texShape = None, texType = FLOAT\<rparr>"
    and nd: "\<not> delayedStorage registeredImmediate"
    and ok: "fst (write_op sampleExternals 1 (Some [1, 2, 3]) registeredImmediate) = Inr ()"
    by (simp_all add: registeredImmediate_def eval_defs)
  from write_releases_and_stores[OF residentBackend_record sh, where v = "[4, 5, 6]"
      and E = sampleExternals] d
    write_releases_and_stores[OF reg, where v = "[1, 2, 3]" and E = sampleExternals] nd ok
  show ?thesis by auto
qed

subsection \<open>Teardown\<close>

lemma fold_deleteProgram:
  "set (programs (fold (\<lambda>kb. deleteProgram (webGLProgram (snd kb))) kbs g)) =
     set (programs g) - (\<lambda>kb. webGLProgram (snd kb)) ` set kbs \<and>
   regions (fold (\<lambda>kb. deleteProgram (webGLProgram (snd kb))) kbs g) = regions g \<and>
   contextDisposed (fold (\<lambda>kb. deleteProgram (webGLProgram (snd kb))) kbs g) = contextDisposed g"
  by (induction kbs arbitrary: g) (auto simp: deleteProgram_def)

lemma fold_deleteMatrixTexture:
  "regions (fold deleteMatrixTexture ts g) = (\<lambda>t. if t \<in> set ts then None else regions g t) \<and>
   programs (fold deleteMatrixTexture ts g) = programs g \<and>
   contextDisposed (fold deleteMatrixTexture ts g) = contextDisposed g"
  by (induction ts arbitrary: g) (auto simp: deleteMatrixTexture_def)

lemma gpgpu_dispose_fields:
  "set (programs (gpgpu_dispose g)) \<subseteq> set (programs g)"
  "regions g t = None \<Longrightarrow> regions (gpgpu_dispose g) t = None"
  "contextDisposed (gpgpu_dispose g)"
  by (auto simp: gpgpu_dispose_def)

lemmas eval_run_defs =
  compileAndRun_def makeOutputArray_def arrayData_def getAndSaveBinary_def compileProgram_def
  createProgram_def runProgram_def regionOf_def

lemma compiledBackend_fields:
  "binaryCache compiledBackend = [(''NEG'', sampleBinary)]"
  "programs (gpgpu compiledBackend) = [0]"
  "\<not> disposed compiledBackend" "gpgpuCreatedLocally compiledBackend"
  "\<not> managerDisposed (textureManager compiledBackend)"
  "allocatedTextures (textureManager compiledBackend) = [0, 1]"
  by (simp_all add: compiledBackend_def eval_defs eval_run_defs sampleBinary_def)

text \<open>Claim C8. \<open>dispose\<close> is idempotent. A call on a backend whose disposed flag is
  set returns the state unchanged. The first call deletes the program of every cache
  entry from the device context, disposes the texture manager (every texture it
  allocated is freed), disposes the device context if the backend created it and
  leaves its disposed flag alone otherwise, and sets the disposed flag.\<close>

theorem dispose_idempotent:
  "dispose (dispose s) = dispose s \<and>
   (disposed s \<longrightarrow> dispose s = s) \<and>
   (\<not> disposed s \<longrightarrow>
      disposed (dispose s) \<and>
      (\<forall>kb \<in> set (binaryCache s). webGLProgram (snd kb) \<notin> set (programs (gpgpu (dispose s)))) \<and>
      managerDisposed (textureManager (dispose s)) \<and>
      (\<not> managerDisposed (textureManager s) \<longrightarrow>
         (\<forall>t \<in> set (allocatedTextures (textureManager s)). regions (gpgpu (dispose s)) t = None)) \<and>
      (gpgpuCreatedLocally s \<longrightarrow> contextDisposed (gpgpu (dispose s))) \<and>
      (\<not> gpgpuCreatedLocally s \<longrightarrow>
         contextDisposed (gpgpu (dispose s)) = contextDisposed (gpgpu s)))"
proof -
  let ?g1 = "fold (\<lambda>kb. deleteProgram (webGLProgram (snd kb))) (binaryCache s) (gpgpu s)"
  let ?tg = "textureManager_dispose (textureManager s) ?g1"
  have progs: "set (programs (snd ?tg)) \<subseteq> set (programs ?g1)"
    by (simp add: textureManager_dispose_def fold_deleteMatrixTexture)
  have gone: "webGLProgram (snd kb) \<notin> set (programs ?g1)" if "kb \<in> set (binaryCache s)" for kb
    using that by (auto simp: fold_deleteProgram)
  have regs: "regions (snd ?tg) t = None"
    if "\<not> managerDisposed (textureManager s)" "t \<in> set (allocatedTextures (textureManager s))" for t
    using that by (simp add: textureManager_dispose_def fold_deleteMatrixTexture)
  have cd: "contextDisposed (snd ?tg) = contextDisposed (gpgpu s)"
    by (simp add: textureManager_dispose_def fold_deleteMatrixTexture fold_deleteProgram)
  show ?thesis
    using progs gone regs cd gpgpu_dispose_fields[of "snd ?tg"]
    by (auto simp: dispose_def Let_def textureManager_dispose_disposed)
qed

theorem dispose_idempotent_witness:
  "dispose (dispose compiledBackend) = dispose compiledBackend \<and>
   disposed (dispose compiledBackend) \<and>
   0 \<notin> set (programs (gpgpu (dispose compiledBackend))) \<and>
   managerDisposed (textureManager (dispose compiledBackend)) \<and>
   regions (gpgpu (dispose compiledBackend)) 0 = None \<and>
   regions (gpgpu (dispose compiledBackend)) 1 = None \<and>
   contextDisposed (gpgpu (dispose compiledBackend))"
  using dispose_idempotent[of compiledBackend] compiledBackend_fields
  by (simp add: sampleBinary_def)

subsection \<open>Host values and device texture exclude each other in delayed storage mode\<close>

lemma defaultBackend_inv: "delayedStorage defaultBackend" "poolAllocated defaultBackend" "noBothCopies defaultBackend"
  by (simp_all add: defaultBackend_def poolAllocated_def noBothCopies_def newTextureManager_def)

text \<open>Claim C9. In delayed storage mode, from a state in which no record holds both
  host values and a device texture and in which the pooled and the attached textures
  are allocated regions (a new backend is such a state), every sequence of calls on the
  backend ends in such a state, calls that throw included.\<close>

theorem delayed_mode_never_both_copies:
  assumes "delayedStorage s" and "poolAllocated s" and "noBothCopies s"
  shows "noBothCopies (run E cs s) \<and> delayedStorage (run E cs s) \<and> poolAllocated (run E cs s)"
  using run_inv[of s E cs] assms by (simp add: delayedInvariant_def)

theorem delayed_mode_never_both_copies_witness:
  "noBothCopies
     (run sampleExternals
        [Register 1 [3] Float32, Write 1 (Some [1, 2, 3]), GetTexture 1, ReadSync 1,
         Clone \<lparr>dataId = 1, nd_shape = [3], nd_dtype = Float32\<rparr>, Dispose]
        defaultBackend) \<and>
   texData (run sampleExternals
        [Register 1 [3] Float32, Write 1 (Some [1, 2, 3]), GetTexture 1, ReadSync 1]
        defaultBackend) 1 =
     Some \<lparr>shape = [3], dtype = Float32, values_cpu = Some [1, 2, 3], texture = None,
           texShape = None, texType = FLOAT\<rparr>"
proof -
  have "texData (run sampleExternals
        [Register 1 [3] Float32, Write 1 (Some [1, 2, 3]), GetTexture 1, ReadSync 1]
        defaultBackend) 1 =
     Some \<lparr>shape = [3], dtype = Float32, values_cpu = Some [1, 2, 3], texture = None,
           texShape = None, texType = FLOAT\<rparr>"
    by (simp add: eval_defs readSync_def cacheOnCPU_def downloadMatrixFromTexture_def
          float32ToTypedArray_def releaseTexture_def)
  with delayed_mode_never_both_copies[OF defaultBackend_inv] show ?thesis by blast
qed

subsection \<open>Handles without a record\<close>

lemma uploadToGPU_unregistered: "texData s i = None \<Longrightarrow> uploadToGPU E i s = (Inl (NoDataFound i), s)"
  by (simp add: uploadToGPU_def throwIfNoData_def dom_def)

lemma uploadToGPU_keeps_unregistered:
  "texData s i = None \<Longrightarrow> texData (snd (uploadToGPU E j s)) i = None"
  by (cases rule: uploadToGPU_cases[of s j E]) auto

lemma uploadInputs_keeps_unregistered:
  "texData s i = None \<Longrightarrow> texData (snd (uploadInputs E xs s)) i = None"
proof (induction xs arbitrary: s)
  case Nil
  then show ?case by simp
next
  case (Cons x xs)
  obtain r s1 where u: "uploadToGPU E (dataId x) s = (r, s1)" by (cases "uploadToGPU E (dataId x) s")
  with uploadToGPU_keeps_unregistered[OF Cons.prems, of E "dataId x"] have "texData s1 i = None" by simp
  with Cons.IH[of s1] u show ?case by (cases r) auto
qed

lemma uploadInputs_append:
  "uploadInputs E (xs @ ys) s =
     (case uploadInputs E xs s of (Inl e, s1) \<Rightarrow> (Inl e, s1) | (Inr u, s1) \<Rightarrow> uploadInputs E ys s1)"
  by (induction xs arbitrary: s) (auto split: prod.splits sum.splits)

lemma uploadInputs_stops:
  assumes "texData s (dataId x) = None" and "uploadInputs E pre s = (Inr (), s1)"
  shows "uploadInputs E (pre @ x # post) s = (Inl (NoDataFound (dataId x)), s1)"
proof -
  from uploadInputs_keeps_unregistered[OF assms(1), of E pre] assms(2)
  have "texData s1 (dataId x) = None" by simp
  then show ?thesis
    by (simp add: uploadInputs_append assms(2) uploadToGPU_unregistered)
qed

lemma makeOutputArray_keeps_unregistered:
  "texData s i = None \<Longrightarrow> i \<noteq> nextDataId s \<Longrightarrow> texData (snd (makeOutputArray sh dt s)) i = None"
  by (simp add: makeOutputArray_def register_def Let_def)

lemma compileAndRun_default_unfold:
  "compileAndRun E prog (x0 # xs) None s =
     (case makeOutputArray (outputShape prog) (nd_dtype x0) s of
        (Inl e, s0) \<Rightarrow> (Inl e, s0)
      | (Inr out, s0) \<Rightarrow> compileAndRun E prog (x0 # xs) (Some out) s0)"
  by (simp add: compileAndRun_def split: prod.splits sum.splits)

lemma uploadInputs_fails:
  "x \<in> set xs \<Longrightarrow> texData s (dataId x) = None \<Longrightarrow> \<exists>e s'. uploadInputs E xs s = (Inl e, s')"
proof (induction xs arbitrary: s)
  case Nil
  then show ?case by simp
next
  case (Cons y ys)
  obtain r s1 where u: "uploadToGPU E (dataId y) s = (r, s1)" by (cases "uploadToGPU E (dataId y) s")
  show ?case
  proof (cases r)
    case (Inl e)
    with u show ?thesis by simp
  next
    case (Inr a)
    have "dataId y \<noteq> dataId x"
      using Cons.prems(2) u Inr by (auto simp: uploadToGPU_unregistered)
    then have "x \<in> set ys" using Cons.prems(1) by auto
    moreover have "texData s1 (dataId x) = None"
      using uploadToGPU_keeps_unregistered[OF Cons.prems(2), of E "dataId y"] u by simp
    ultimately show ?thesis using Cons.IH[of s1] u Inr by simp
  qed
qed

lemma compileAndRun_given_fails:
  assumes "texData s i = None" and "i \<in> dataId ` set inputs \<or> dataId out = i"
  shows "\<exists>e s'. compileAndRun E prog inputs (Some out) s = (Inl e, s')"
proof (cases "uploadInputs E inputs s")
  case (Pair r s1)
  show ?thesis
  proof (cases r)
    case (Inl e)
    with Pair show ?thesis by (simp add: compileAndRun_def)
  next
    case (Inr a)
    with Pair uploadInputs_fails[of _ inputs s E] assms have o: "dataId out = i" by fastforce
    from uploadInputs_keeps_unregistered[OF assms(1), of E inputs] Pair
    have "texData s1 i = None" by simp
    with Pair Inr o show ?thesis by (simp add: compileAndRun_def uploadToGPU_unregistered)
  qed
qed

lemma compileAndRun_fails:
  assumes "texData s i = None" and "i \<noteq> nextDataId s"
    and "i \<in> dataId ` set inputs \<or> (\<exists>out. output = Some out \<and> dataId out = i)"
  shows "\<exists>e s'. compileAndRun E prog inputs output s = (Inl e, s')"
proof (cases "output")
  case (Some out)
  with assms compileAndRun_given_fails[OF assms(1), of inputs out E prog] show ?thesis by auto
next
  case None
  with assms(3) obtain x0 xs where inputs: "inputs = x0 # xs" by (cases inputs) auto
  obtain r s0 where m: "makeOutputArray (outputShape prog) (nd_dtype x0) s = (r, s0)"
    by (cases "makeOutputArray (outputShape prog) (nd_dtype x0) s")
  show ?thesis
  proof (cases r)
    case (Inl e)
    with m None inputs show ?thesis by (simp add: compileAndRun_default_unfold)
  next
    case (Inr out)
    have "texData s0 i = None"
      using makeOutputArray_keeps_unregistered[OF assms(1,2), of "outputShape prog" "nd_dtype x0"] m
      by simp
    from compileAndRun_given_fails[OF this, of inputs out E prog] assms(3) None
    show ?thesis using m Inr inputs by (auto simp: compileAndRun_default_unfold)
  qed
qed

lemma binaryOpInto_fails:
  assumes "texData s i = None" and "i \<noteq> nextDataId s" and "dataId a = i \<or> dataId b = i"
  shows "\<exists>e s'. binaryOpInto E opc dt a b s = (Inl e, s')"
proof (cases "BinaryOpProgram E opc (nd_shape a) (nd_shape b)")
  case (Inl e)
  then show ?thesis by (simp add: binaryOpInto_def)
next
  case (Inr prog)
  obtain r s0 where m: "makeOutputArray (outputShape prog) dt s = (r, s0)"
    by (cases "makeOutputArray (outputShape prog) dt s")
  show ?thesis
  proof (cases r)
    case (Inl e)
    with m Inr show ?thesis by (simp add: binaryOpInto_def)
  next
    case out: (Inr out)
    have "texData s0 i = None"
      using makeOutputArray_keeps_unregistered[OF assms(1,2), of "outputShape prog" dt] m by simp
    from compileAndRun_given_fails[OF this, of "[a, b]" out E prog] assms(3)
    show ?thesis using m Inr out by (auto simp: binaryOpInto_def)
  qed
qed

lemma binaryOpDefault_fails:
  assumes "texData s i = None" and "i \<noteq> nextDataId s" and "dataId a = i \<or> dataId b = i"
  shows "\<exists>e s'. binaryOpDefault E opc a b s = (Inl e, s')"
proof (cases "BinaryOpProgram E opc (nd_shape a) (nd_shape b)")
  case (Inl e)
  then show ?thesis by (simp add: binaryOpDefault_def)
next
  case (Inr prog)
  from compileAndRun_fails[OF assms(1,2), of "[a, b]" None E prog] assms(3)
  show ?thesis using Inr by (auto simp: binaryOpDefault_def)
qed

lemma binaryOp_fails:
  assumes "texData s i = None" and "i \<noteq> nextDataId s" and "dataId a = i \<or> dataId b = i"
  shows "\<exists>e s'. binaryOp E bop a b s = (Inl e, s')"
  using binaryOpInto_fails[OF assms] binaryOpDefault_fails[OF assms]
  by (cases bop) (simp_all add: binaryOp_defs)


lemma makeOutputArray_error:
  "makeOutputArray sh dt s = (Inl e, s0) \<Longrightarrow> e = AlreadyRegistered (nextDataId s)"
  by (auto simp: makeOutputArray_def register_def Let_def split: if_splits)

lemma compileAndRun_given_first:
  "texData s (dataId a) = None \<Longrightarrow>
   compileAndRun E prog (a # xs) (Some out) s = (Inl (NoDataFound (dataId a)), s)"
  by (simp add: compileAndRun_def uploadToGPU_unregistered)

lemma compileAndRun_default_first:
  assumes "texData s (dataId a) = None" and "dataId a \<noteq> nextDataId s"
    and "compileAndRun E prog (a # xs) None s = (Inl e, s')"
  shows "e = NoDataFound (dataId a) \<or> e = AlreadyRegistered (nextDataId s)"
proof -
  obtain r s0 where m: "makeOutputArray (outputShape prog) (nd_dtype a) s = (r, s0)"
    by (cases "makeOutputArray (outputShape prog) (nd_dtype a) s")
  show ?thesis
  proof (cases r)
    case (Inl e')
    with m assms(3) makeOutputArray_error[of "outputShape prog" "nd_dtype a" s e' s0]
    show ?thesis by (simp add: compileAndRun_default_unfold)
  next
    case (Inr out)
    have "texData s0 (dataId a) = None"
      using makeOutputArray_keeps_unregistered[OF assms(1,2), of "outputShape prog" "nd_dtype a"] m
      by simp
    from compileAndRun_given_first[OF this, of E prog xs out] m Inr assms(3)
    show ?thesis by (simp add: compileAndRun_default_unfold)
  qed
qed

lemma binaryOpInto_first:
  assumes "texData s (dataId a) = None" and "dataId a \<noteq> nextDataId s"
    and "binaryOpInto E opc dt a b s = (Inl e, s')"
  shows "e = NoDataFound (dataId a) \<or> e = AlreadyRegistered (nextDataId s) \<or>
         BinaryOpProgram E opc (nd_shape a) (nd_shape b) = Inl e"
proof (cases "BinaryOpProgram E opc (nd_shape a) (nd_shape b)")
  case (Inl e')
  with assms(3) show ?thesis by (simp add: binaryOpInto_def)
next
  case (Inr prog)
  obtain r s0 where m: "makeOutputArray (outputShape prog) dt s = (r, s0)"
    by (cases "makeOutputArray (outputShape prog) dt s")
  show ?thesis
  proof (cases r)
    case (Inl e')
    with m Inr assms(3) makeOutputArray_error[of "outputShape prog" dt s e' s0]
    show ?thesis by (simp add: binaryOpInto_def)
  next
    case out: (Inr out)
    have "texData s0 (dataId a) = None"
      using makeOutputArray_keeps_unregistered[OF assms(1,2), of "outputShape prog" dt] m by simp
    from compileAndRun_given_first[OF this, of E prog "[b]" out] m Inr out assms(3)
    show ?thesis by (simp add: binaryOpInto_def)
  qed
qed

lemma binaryOpDefault_first:
  assumes "texData s (dataId a) = None" and "dataId a \<noteq> nextDataId s"
    and "binaryOpDefault E opc a b s = (Inl e, s')"
  shows "e = NoDataFound (dataId a) \<or> e = AlreadyRegistered (nextDataId s) \<or>
         BinaryOpProgram E opc (nd_shape a) (nd_shape b) = Inl e"
proof (cases "BinaryOpProgram E opc (nd_shape a) (nd_shape b)")
  case (Inl e')
  with assms(3) show ?thesis by (simp add: binaryOpDefault_def)
next
  case (Inr prog)
  with assms(3) have "compileAndRun E prog [a, b] None s = (Inl e, s')"
    by (simp add: binaryOpDefault_def)
  from compileAndRun_default_first[OF assms(1,2) this] show ?thesis by blast
qed

lemma binaryOp_first:
  assumes "texData s (dataId a) = None" and "dataId a \<noteq> nextDataId s"
    and "binaryOp E bop a b s = (Inl e, s')"
  shows "e = NoDataFound (dataId a) \<or> e = AlreadyRegistered (nextDataId s) \<or>
         (\<exists>opc. BinaryOpProgram E opc (nd_shape a) (nd_shape b) = Inl e)"
proof -
  have I: "e = NoDataFound (dataId a) \<or> e = AlreadyRegistered (nextDataId s) \<or>
         (\<exists>opc. BinaryOpProgram E opc (nd_shape a) (nd_shape b) = Inl e)"
    if "binaryOpInto E opc dt a b s = (Inl e, s')" for opc dt
    using binaryOpInto_first[OF assms(1,2) that] by blast
  have D: "e = NoDataFound (dataId a) \<or> e = AlreadyRegistered (nextDataId s) \<or>
         (\<exists>opc. BinaryOpProgram E opc (nd_shape a) (nd_shape b) = Inl e)"
    if "binaryOpDefault E opc a b s = (Inl e, s')" for opc
    using binaryOpDefault_first[OF assms(1,2) that] by blast
  show ?thesis
    by (insert assms(3), cases bop; simp add: binaryOp_defs; erule I D)
qed

text \<open>Claim C3, as stated, fails twice. \<open>write\<close> with \<open>null\<close> on a handle without a record
  throws the error about the values, not the one about the handle, because that check
  comes first. And \<open>add\<close> on a registered operand (handle 1, host-resident) and an
  operand without a record (handle 2) throws the error about handle 2 only after it
  has registered its output array (identity 0) and made handle 1 resident: the state is
  not the one before the call.\<close>

theorem unregistered_handle_counterexample:
  "texData hostBackend 2 = None \<and>
   fst (write_op sampleExternals 2 None hostBackend) = Inl ValuesNull \<and>
   fst (add sampleExternals array1 array2 hostBackend) = Inl (NoDataFound 2) \<and>
   map_option texture (texData hostBackend 1) = Some None \<and>
   map_option texture (texData (snd (add sampleExternals array1 array2 hostBackend)) 1) = Some (Some 0) \<and>
   texData hostBackend 0 = None \<and>
   texData (snd (add sampleExternals array1 array2 hostBackend)) 0 \<noteq> None"
  by (simp add: hostBackend_def array1_def array2_def add_def binaryOpInto_def upcastType_def
        eval_defs eval_run_defs)

text \<open>Claim C3, amended. For a handle \<open>i\<close> without a record: \<open>write\<close> with values,
  \<open>readSync\<close>, \<open>read\<close>, \<open>getTexture\<close>, \<open>getTextureData\<close>, \<open>uploadToGPU\<close> and \<open>clone\<close> throw
  the error that carries \<open>i\<close>, whose message contains the decimal digits of \<open>i\<close>, and
  leave the state as it is; \<open>write\<close> with \<open>null\<close> throws the error about the values and
  leaves the state as it is. \<open>compileAndRun\<close> with an output array throws the error that
  carries \<open>i\<close> when \<open>i\<close> is the first operand (or the output) that the residency upload
  cannot make resident, and the state is then the one reached by making the operands
  before it resident. \<open>compileAndRun\<close> without an output array, when \<open>i\<close> is not the
  identity that the allocation of the output array issues next and that allocation
  returns, throws the error that carries \<open>i\<close> when \<open>i\<close> is the first operand that cannot
  be made resident, and the state is then the one reached by allocating the output and
  making the operands before it resident. When \<open>i\<close> is not the identity issued next:
  \<open>compileAndRun\<close> with \<open>i\<close> among the operands or as the output, with or without an
  output array, throws; each of the fifteen binary operations with \<open>i\<close> as either
  operand throws; and with \<open>i\<close> as the first operand, the error of a binary operation
  is the one that carries \<open>i\<close>, or the one of the registration of the output under the
  identity issued next, or one thrown by the construction of the program.\<close>

theorem unregistered_handle_throws_no_data:
  assumes "texData s i = None"
  shows "write_op E i (Some v) s = (Inl (NoDataFound i), s) \<and>
         write_op E i None s = (Inl ValuesNull, s) \<and>
         readSync E i s = (Inl (NoDataFound i), s) \<and>
         read E i s = (Inl (NoDataFound i), s) \<and>
         getTexture E i s = (Inl (NoDataFound i), s) \<and>
         getTextureData E i s = (Inl (NoDataFound i), s) \<and>
         uploadToGPU E i s = (Inl (NoDataFound i), s) \<and>
         (\<forall>x. dataId x = i \<longrightarrow> clone E x s = (Inl (NoDataFound i), s)) \<and>
         (\<forall>pre x post out s1. dataId x = i \<longrightarrow> uploadInputs E pre s = (Inr (), s1) \<longrightarrow>
            compileAndRun E prog (pre @ x # post) (Some out) s = (Inl (NoDataFound i), s1)) \<and>
         (\<forall>inputs out s1. dataId out = i \<longrightarrow> uploadInputs E inputs s = (Inr (), s1) \<longrightarrow>
            compileAndRun E prog inputs (Some out) s = (Inl (NoDataFound i), s1)) \<and>
         (\<forall>pre x post out s0 s1. dataId x = i \<longrightarrow> i \<noteq> nextDataId s \<longrightarrow>
            makeOutputArray (outputShape prog) (nd_dtype (hd (pre @ [x]))) s = (Inr out, s0) \<longrightarrow>
            uploadInputs E pre s0 = (Inr (), s1) \<longrightarrow>
            compileAndRun E prog (pre @ x # post) None s = (Inl (NoDataFound i), s1)) \<and>
         (\<forall>inputs outp. i \<noteq> nextDataId s \<longrightarrow>
            (i \<in> dataId ` set inputs \<or> (\<exists>out. outp = Some out \<and> dataId out = i)) \<longrightarrow>
            (\<exists>e s'. compileAndRun E prog inputs outp s = (Inl e, s'))) \<and>
         (\<forall>bop a b. i \<noteq> nextDataId s \<longrightarrow> (dataId a = i \<or> dataId b = i) \<longrightarrow>
            (\<exists>e s'. binaryOp E bop a b s = (Inl e, s'))) \<and>
         (\<forall>bop a b e s'. dataId a = i \<longrightarrow> i \<noteq> nextDataId s \<longrightarrow>
            binaryOp E bop a b s = (Inl e, s') \<longrightarrow>
            e = NoDataFound i \<or> e = AlreadyRegistered (nextDataId s) \<or>
            (\<exists>opc. BinaryOpProgram E opc (nd_shape a) (nd_shape b) = Inl e)) \<and>
         (\<exists>pre post. message (NoDataFound i) = pre @ show_nat i @ post)"
proof -
  have up: "uploadToGPU E i s = (Inl (NoDataFound i), s)"
    using assms by (rule uploadToGPU_unregistered)
  have car: "compileAndRun E prog (pre @ x # post) (Some out) s' = (Inl (NoDataFound i), s1)"
    if "dataId x = i" "uploadInputs E pre s' = (Inr (), s1)" "texData s' i = None"
    for pre x post out s' s1
    using uploadInputs_stops[of s' x E pre s1 post] that
    by (simp add: compileAndRun_def)
  have cout: "compileAndRun E prog inputs (Some out) s = (Inl (NoDataFound i), s1)"
    if "dataId out = i" "uploadInputs E inputs s = (Inr (), s1)" for inputs out s1
  proof -
    from uploadInputs_keeps_unregistered[OF assms, of E inputs] that
    have "texData s1 (dataId out) = None" by simp
    then show ?thesis using that by (simp add: compileAndRun_def uploadToGPU_unregistered)
  qed
  have cdef: "compileAndRun E prog (pre @ x # post) None s = (Inl (NoDataFound i), s1)"
    if "dataId x = i" "i \<noteq> nextDataId s"
      "makeOutputArray (outputShape prog) (nd_dtype (hd (pre @ [x]))) s = (Inr out, s0)"
      "uploadInputs E pre s0 = (Inr (), s1)" for pre x post out s0 s1
  proof -
    obtain x0 xs where l: "pre @ x # post = x0 # xs" "hd (pre @ [x]) = x0"
      by (cases pre) auto
    have "texData s0 i = None"
      using makeOutputArray_keeps_unregistered[OF assms that(2),
          of "outputShape prog" "nd_dtype (hd (pre @ [x]))"] that(3) by simp
    from car[OF that(1,4) this, of post out] that(3) l show ?thesis
      by (simp add: compileAndRun_default_unfold)
  qed
  have never: "\<exists>e s'. compileAndRun E prog inputs outp s = (Inl e, s')"
    if "i \<noteq> nextDataId s" "i \<in> dataId ` set inputs \<or> (\<exists>out. outp = Some out \<and> dataId out = i)"
    for inputs outp
    using that by (rule compileAndRun_fails[OF assms])
  have bin: "\<exists>e s'. binaryOp E bop a b s = (Inl e, s')"
    if "i \<noteq> nextDataId s" "dataId a = i \<or> dataId b = i" for bop a b
    using that by (rule binaryOp_fails[OF assms])
  have bin1: "e = NoDataFound i \<or> e = AlreadyRegistered (nextDataId s) \<or>
            (\<exists>opc. BinaryOpProgram E opc (nd_shape a) (nd_shape b) = Inl e)"
    if "dataId a = i" "i \<noteq> nextDataId s" "binaryOp E bop a b s = (Inl e, s')" for bop a b e s'
    using binaryOp_first[of s a E bop b e s'] that assms by simp
  have msg: "\<exists>pre post. message (NoDataFound i) = pre @ show_nat i @ post"
    by (rule exI[of _ "''No data found for NDArray with data id ''"]) auto
  have simple: "write_op E i (Some v) s = (Inl (NoDataFound i), s) \<and>
         write_op E i None s = (Inl ValuesNull, s) \<and>
         readSync E i s = (Inl (NoDataFound i), s) \<and>
         read E i s = (Inl (NoDataFound i), s) \<and>
         getTexture E i s = (Inl (NoDataFound i), s) \<and>
         getTextureData E i s = (Inl (NoDataFound i), s) \<and>
         (\<forall>x. dataId x = i \<longrightarrow> clone E x s = (Inl (NoDataFound i), s))"
    using assms up
    by (simp add: write_op_def readSync_def read_def getTexture_def getTextureData_def clone_def
          throwIfNoData_def dom_def)
  from simple up car[OF _ _ assms] cout cdef never bin bin1 msg show ?thesis
    by (intro conjI allI impI) (blast+)?
qed


theorem unregistered_handle_throws_no_data_witness:
  "write_op sampleExternals 2 (Some [7]) hostBackend = (Inl (NoDataFound 2), hostBackend) \<and>
   readSync sampleExternals 2 hostBackend = (Inl (NoDataFound 2), hostBackend) \<and>
   read sampleExternals 2 hostBackend = (Inl (NoDataFound 2), hostBackend) \<and>
   getTexture sampleExternals 2 hostBackend = (Inl (NoDataFound 2), hostBackend) \<and>
   clone sampleExternals array2 hostBackend = (Inl (NoDataFound 2), hostBackend) \<and>
   compileAndRun sampleExternals \<lparr>outputShape = [3], userCode = ''ADD''\<rparr> [array1, array2]
       (Some array1) hostBackend =
     (Inl (NoDataFound 2), snd (uploadInputs sampleExternals [array1] hostBackend)) \<and>
   compileAndRun sampleExternals \<lparr>outputShape = [3], userCode = ''ADD''\<rparr> [array2, array1]
       None hostBackend =
     (Inl (NoDataFound 2), snd (makeOutputArray [3] Float32 hostBackend)) \<and>
   (\<exists>s'. binaryOp sampleExternals Add array1 array2 hostBackend = (Inl (NoDataFound 2), s')) \<and>
   (\<exists>s'. binaryOp sampleExternals Multiply array2 array1 hostBackend = (Inl (NoDataFound 2), s'))"
proof -
  let ?prog = "\<lparr>outputShape = [3], userCode = ''ADD''\<rparr>"
  have un: "texData hostBackend 2 = None"
    by (simp add: hostBackend_def eval_defs)
  have nx: "2 \<noteq> nextDataId hostBackend"
    by (simp add: hostBackend_def eval_defs)
  have "fst (uploadInputs sampleExternals [array1] hostBackend) = Inr ()"
    by (simp add: hostBackend_def array1_def eval_defs)
  then have up: "uploadInputs sampleExternals [array1] hostBackend =
      (Inr (), snd (uploadInputs sampleExternals [array1] hostBackend))"
    by (simp add: prod_eq_iff)
  have "fst (makeOutputArray [3] Float32 hostBackend) =
      Inr \<lparr>dataId = 0, nd_shape = [3], nd_dtype = Float32\<rparr>"
    by (simp add: hostBackend_def makeOutputArray_def eval_defs)
  then have mk: "makeOutputArray (outputShape ?prog) (nd_dtype (hd ([] @ [array2]))) hostBackend =
      (Inr \<lparr>dataId = 0, nd_shape = [3], nd_dtype = Float32\<rparr>,
       snd (makeOutputArray [3] Float32 hostBackend))"
    by (simp add: prod_eq_iff array2_def)
  have id2: "dataId array2 = 2" by (simp add: array2_def)
  note T = unregistered_handle_throws_no_data[OF un, of sampleExternals "[7]" ?prog]
  note Tcar = T[THEN conjunct2, THEN conjunct2, THEN conjunct2, THEN conjunct2, THEN conjunct2, THEN conjunct2, THEN conjunct2, THEN conjunct2, THEN conjunct1]
    and Tdef = T[THEN conjunct2, THEN conjunct2, THEN conjunct2, THEN conjunct2, THEN conjunct2, THEN conjunct2, THEN conjunct2, THEN conjunct2, THEN conjunct2, THEN conjunct2, THEN conjunct1]
    and Tbin = T[THEN conjunct2, THEN conjunct2, THEN conjunct2, THEN conjunct2, THEN conjunct2, THEN conjunct2, THEN conjunct2, THEN conjunct2, THEN conjunct2, THEN conjunct2, THEN conjunct2, THEN conjunct2, THEN conjunct1]
    and Tbin1 = T[THEN conjunct2, THEN conjunct2, THEN conjunct2, THEN conjunct2, THEN conjunct2, THEN conjunct2, THEN conjunct2, THEN conjunct2, THEN conjunct2, THEN conjunct2, THEN conjunct2, THEN conjunct2, THEN conjunct2, THEN conjunct1]
  from Tcar id2 up
  have c1: "compileAndRun sampleExternals ?prog ([array1] @ array2 # [])
       (Some array1) hostBackend =
     (Inl (NoDataFound 2), snd (uploadInputs sampleExternals [array1] hostBackend))"
    by blast
  have "uploadInputs sampleExternals [] (snd (makeOutputArray [3] Float32 hostBackend)) =
      (Inr (), snd (makeOutputArray [3] Float32 hostBackend))"
    by simp
  with Tdef id2 nx mk
  have c2: "compileAndRun sampleExternals ?prog ([] @ array2 # [array1]) None hostBackend =
     (Inl (NoDataFound 2), snd (makeOutputArray [3] Float32 hostBackend))"
    by blast
  have b1: "\<exists>s'. binaryOp sampleExternals Add array1 array2 hostBackend =
      (Inl (NoDataFound 2), s')"
  proof -
    from Tbin id2 nx obtain e s' where
      r: "binaryOp sampleExternals Add array1 array2 hostBackend = (Inl e, s')"
      by blast
    have "fst (binaryOp sampleExternals Add array1 array2 hostBackend) = Inl (NoDataFound 2)"
      by (simp add: hostBackend_def array1_def array2_def binaryOp_defs binaryOpInto_def binaryOpDefault_def upcastType_def makeOutputArray_def
            compileAndRun_def eval_defs)
    with r show ?thesis by simp
  qed
  have b2: "\<exists>s'. binaryOp sampleExternals Multiply array2 array1 hostBackend =
      (Inl (NoDataFound 2), s')"
  proof -
    from Tbin id2 nx obtain e s' where
      r: "binaryOp sampleExternals Multiply array2 array1 hostBackend = (Inl e, s')"
      by blast
    with Tbin1 id2 nx have "e = NoDataFound 2 \<or> e = AlreadyRegistered (nextDataId hostBackend) \<or>
        (\<exists>opc. BinaryOpProgram sampleExternals opc (nd_shape array2) (nd_shape array1) = Inl e)"
      by blast
    moreover have "fst (makeOutputArray [3] Float32 hostBackend) \<noteq>
        Inl (AlreadyRegistered (nextDataId hostBackend))"
      by (simp add: hostBackend_def makeOutputArray_def eval_defs)
    moreover have "fst (binaryOp sampleExternals Multiply array2 array1 hostBackend) \<noteq>
        Inl (AlreadyRegistered (nextDataId hostBackend))"
      by (simp add: hostBackend_def array1_def array2_def binaryOp_defs binaryOpInto_def binaryOpDefault_def upcastType_def makeOutputArray_def
            compileAndRun_def eval_defs)
    ultimately show ?thesis using r by (auto simp: sampleExternals_def)
  qed
  from T id2 c1 c2 b1 b2 show ?thesis by simp
qed

subsection \<open>Output encoding of the binary operations\<close>

lemma makeOutputArray_dtype:
  "makeOutputArray sh dt s = (Inr out, s1) \<Longrightarrow> nd_dtype out = dt"
  by (auto simp: makeOutputArray_def register_def Let_def split: if_splits)

lemma compileAndRun_given:
  "compileAndRun E prog inputs (Some out) s = (Inr r, s') \<Longrightarrow> r = out"
  by (auto simp: compileAndRun_def Let_def split: prod.splits sum.splits option.splits)

lemma compileAndRun_default:
  "compileAndRun E prog inputs None s = (Inr r, s') \<Longrightarrow>
     \<exists>x xs. inputs = x # xs \<and> nd_dtype r = nd_dtype x"
  by (auto simp: compileAndRun_def Let_def split: prod.splits sum.splits option.splits list.splits
           dest: makeOutputArray_dtype)

lemma binaryOpInto_dtype:
  "binaryOpInto E opc dt a b s = (Inr r, s') \<Longrightarrow> nd_dtype r = dt"
  by (auto simp: binaryOpInto_def split: sum.splits prod.splits
           dest!: compileAndRun_given makeOutputArray_dtype)

lemma binaryOpDefault_dtype:
  "binaryOpDefault E opc a b s = (Inr r, s') \<Longrightarrow> nd_dtype r = nd_dtype a"
  by (auto simp: binaryOpDefault_def split: sum.splits dest!: compileAndRun_default)

text \<open>Claim C6, as stated, fails for \<open>minimum\<close>, \<open>maximum\<close> and \<open>divide\<close>: the minimum of an
  integer and a floating-point array is integer-encoded, where the upcast is floating
  point, and the quotient of two integer arrays is floating-point encoded, where the
  upcast is integer.\<close>

theorem binary_output_encoding_counterexample:
  "map_sum id nd_dtype (fst (minimum sampleExternals intArray floatArray mixedBackend)) = Inr Int32 \<and>
   upcastType (nd_dtype intArray) (nd_dtype floatArray) = Float32 \<and>
   map_sum id nd_dtype (fst (divide_op sampleExternals intArray intArray mixedBackend)) = Inr Float32 \<and>
   upcastType (nd_dtype intArray) (nd_dtype intArray) = Int32"
  by (simp add: mixedBackend_def intArray_def floatArray_def minimum_def divide_op_def
        binaryOpInto_def binaryOpDefault_def upcastType_def eval_defs eval_run_defs)

text \<open>Claim C6, amended. When a binary operation returns an array, its encoding is:
  boolean for \<open>equal\<close>, \<open>notEqual\<close>, \<open>less\<close>, \<open>lessEqual\<close>, \<open>greater\<close>, \<open>greaterEqual\<close>,
  \<open>logicalAnd\<close> and \<open>logicalOr\<close>; the upcast of the two operand encodings for \<open>add\<close>,
  \<open>subtract\<close>, \<open>multiply\<close> and \<open>pow\<close>; floating point for \<open>divide\<close>; the encoding of the
  first operand for \<open>minimum\<close> and \<open>maximum\<close>.\<close>

theorem binaryOp_output_encoding:
  assumes "binaryOp E bop a b s = (Inr r, s')"
  shows "nd_dtype r =
     (if bop \<in> {Equal, NotEqual, Less, LessEqual, Greater, GreaterEqual, LogicalAnd, LogicalOr}
        then Bool
      else if bop \<in> {Add, Subtract, Multiply, Pow} then upcastType (nd_dtype a) (nd_dtype b)
      else if bop = Divide then Float32
      else nd_dtype a)"
  using assms
  by (cases bop) (auto simp: binaryOp_defs dest: binaryOpInto_dtype binaryOpDefault_dtype)

theorem binaryOp_output_encoding_witness:
  "map_sum id nd_dtype (fst (binaryOp sampleExternals Add intArray floatArray mixedBackend)) = Inr Float32 \<and>
   map_sum id nd_dtype (fst (binaryOp sampleExternals Less intArray floatArray mixedBackend)) = Inr Bool \<and>
   map_sum id nd_dtype (fst (binaryOp sampleExternals Maximum intArray floatArray mixedBackend)) = Inr Int32"
proof -
  have ok: "\<exists>r. fst (binaryOp sampleExternals bop intArray floatArray mixedBackend) = Inr r"
    if "bop \<in> {Add, Less, Maximum}" for bop
    using that
    by (auto simp: mixedBackend_def intArray_def floatArray_def add_def less_op_def maximum_def
          binaryOpInto_def binaryOpDefault_def upcastType_def eval_defs eval_run_defs)
  have enc: "map_sum id nd_dtype (fst (binaryOp sampleExternals bop intArray floatArray mixedBackend)) =
      Inr (if bop \<in> {Equal, NotEqual, Less, LessEqual, Greater, GreaterEqual, LogicalAnd, LogicalOr}
             then Bool
           else if bop \<in> {Add, Subtract, Multiply, Pow}
             then upcastType (nd_dtype intArray) (nd_dtype floatArray)
           else if bop = Divide then Float32
           else nd_dtype intArray)"
    if "bop \<in> {Add, Less, Maximum}" for bop
  proof -
    from ok[OF that] obtain r where r: "fst (binaryOp sampleExternals bop intArray floatArray mixedBackend) = Inr r"
      by blast
    then have "binaryOp sampleExternals bop intArray floatArray mixedBackend =
        (Inr r, snd (binaryOp sampleExternals bop intArray floatArray mixedBackend))"
      by (simp add: prod_eq_iff)
    from binaryOp_output_encoding[OF this] r show ?thesis by simp
  qed
  from enc[of Add] enc[of Less] enc[of Maximum] show ?thesis
    by (simp add: upcastType_def intArray_def floatArray_def)
qed

section \<open>Properties of the reduction drivers\<close>

subsection \<open>Windows\<close>

lemma concat_windows: "concat (map (\<lambda>j. window w j r) [0..<k]) = take (k * w) r"
proof (induction k)
  case 0
  show ?case by simp
next
  case (Suc k)
  have "take (k * w + w) r = take (k * w) r @ take w (drop (k * w) r)"
    by (simp add: take_add)
  with Suc show ?case by (simp add: window_def add.commute)
qed

lemma ceilDiv_covers: "0 < w \<Longrightarrow> n \<le> ceilDiv n w * w"
proof -
  assume w: "0 < w"
  have "n + w - 1 = (n + w - 1) div w * w + (n + w - 1) mod w" by simp
  moreover have "(n + w - 1) mod w < w" using w by simp
  ultimately show ?thesis unfolding ceilDiv_def by linarith
qed

lemma ceilDiv_one: "0 < n \<Longrightarrow> n \<le> w \<Longrightarrow> ceilDiv n w = 1"
  unfolding ceilDiv_def by (rule div_nat_eqI) auto

lemma ceilDiv_not_one: "w < n \<Longrightarrow> 0 < w \<Longrightarrow> 2 \<le> ceilDiv n w"
proof -
  assume a: "w < n" "0 < w"
  then have "2 * w \<le> n + w - 1" by simp
  then have "(2 * w) div w \<le> (n + w - 1) div w" by (rule div_le_mono)
  with a show ?thesis by (simp add: ceilDiv_def)
qed

lemma ceilDiv_less: "2 \<le> w \<Longrightarrow> 2 \<le> n \<Longrightarrow> ceilDiv n w < n"
proof -
  assume a: "2 \<le> w" "2 \<le> n"
  then obtain w' n' where e: "w = w' + 2" "n = n' + 2"
    by (metis add.commute le_Suc_ex)
  have "n + w - 1 < n * w" unfolding e by (simp add: algebra_simps)
  with a show ?thesis by (simp add: ceilDiv_def div_less_iff_less_mult)
qed


lemma shrinking_pos: "shrinking cows \<Longrightarrow> 1 \<le> n \<Longrightarrow> 0 < cows n"
  unfolding shrinking_def by (metis One_nat_def Suc_le_eq min_less_iff_conj not_less zero_less_numeral less_le_trans)

lemma shrinking_two: "shrinking cows \<Longrightarrow> 2 \<le> n \<Longrightarrow> 2 \<le> cows n"
  unfolding shrinking_def by (metis min.absorb1 le_trans one_le_numeral)

subsection \<open>Sum\<close>

lemma sum_list_concat_rows: "sum_list (concat xss) = sum_list (map sum_list (xss :: real list list))"
  by (induction xss) simp_all

lemma sum_windows:
  assumes "0 < w" and "length r \<le> k * w"
  shows "sum_list (map (\<lambda>j. sum_list (window w j r)) [0..<k]) = sum_list (r :: real list)"
proof -
  have "sum_list (map (\<lambda>j. sum_list (window w j r)) [0..<k]) =
        sum_list (concat (map (\<lambda>j. window w j r) [0..<k]))"
    by (simp add: sum_list_concat_rows comp_def)
  also have "\<dots> = sum_list (take (k * w) r)" by (simp add: concat_windows)
  finally show ?thesis using assms by simp
qed

lemma isInt_iff: "of_int \<lfloor>v\<rfloor> = v \<longleftrightarrow> v \<in> \<int>" for v :: real
  by (metis Ints_cases Ints_of_int of_int_floor_cancel floor_of_int)

lemma float32_Ints: "v \<in> \<int> \<Longrightarrow> \<bar>v\<bar> \<le> 2 ^ 24 \<Longrightarrow> float32 v = v"
proof -
  assume a: "v \<in> \<int>" "\<bar>v\<bar> \<le> 2 ^ 24"
  then obtain n where n: "v = of_int n" by (auto elim: Ints_cases)
  with a(2) have "\<bar>real_of_int n\<bar> \<le> real_of_int (2 ^ 24)" by simp
  then have "\<bar>n\<bar> \<le> 2 ^ 24" unfolding of_int_abs[symmetric] of_int_le_iff .
  then show ?thesis unfolding n by (rule float32_of_int)
qed

lemma sum_list_Ints: "(\<forall>v \<in> set r. v \<in> \<int>) \<Longrightarrow> sum_list r \<in> (\<int> :: real set)"
  by (induction r) auto

lemma sum_list_abs_take: "sum_list (take k (map abs r)) \<le> sum_list (map abs (r :: real list))"
proof -
  have "sum_list (map abs r) = sum_list (take k (map abs r)) + sum_list (drop k (map abs r))"
    by (metis append_take_drop_id sum_list_append)
  moreover have "0 \<le> sum_list (drop k (map abs r))"
    by (rule sum_list_nonneg) (auto simp: drop_map)
  ultimately show ?thesis by simp
qed

lemma sum_list_abs_window:
  "sum_list (map abs (window w j r)) \<le> sum_list (map abs (r :: real list))"
proof -
  have "sum_list (map abs (window w j r)) = sum_list (take w (map abs (drop (j * w) r)))"
    by (simp add: window_def take_map)
  also have "\<dots> \<le> sum_list (map abs (drop (j * w) r))" by (rule sum_list_abs_take)
  also have "\<dots> \<le> sum_list (map abs r)"
  proof -
    have "sum_list (map abs r) = sum_list (take (j * w) (map abs r)) + sum_list (drop (j * w) (map abs r))"
      by (metis append_take_drop_id sum_list_append)
    moreover have "0 \<le> sum_list (take (j * w) (map abs r))"
      by (rule sum_list_nonneg) (auto simp: take_map)
    ultimately show ?thesis by (simp add: drop_map)
  qed
  finally show ?thesis .
qed

lemma accumulate_exact:
  "(\<forall>a \<in> set v. a \<in> \<int>) \<Longrightarrow> acc \<in> \<int> \<Longrightarrow> \<bar>acc\<bar> + sum_list (map abs v) \<le> 2 ^ 24 \<Longrightarrow>
   foldl (\<lambda>sumValue a. float32 (sumValue + a)) acc v = acc + sum_list v"
proof (induction v arbitrary: acc)
  case Nil
  then show ?case by simp
next
  case (Cons a v)
  have i: "acc + a \<in> \<int>" using Cons.prems by simp
  have nn: "0 \<le> sum_list (map abs v)" by (rule sum_list_nonneg) auto
  have b: "\<bar>acc + a\<bar> \<le> 2 ^ 24" using Cons.prems(3) nn by simp
  have f: "float32 (acc + a) = acc + a" using i b by (rule float32_Ints)
  have "foldl (\<lambda>sumValue a. float32 (sumValue + a)) (acc + a) v = acc + a + sum_list v"
    using Cons.prems i by (intro Cons.IH) auto
  then show ?case by (simp add: f)
qed

lemma reduceWindow_sum_exact:
  assumes "\<forall>a \<in> set r. a \<in> \<int>" and "sum_list (map abs r) \<le> 2 ^ 24"
  shows "reduceWindow RSum (window w j r) = sum_list (window w j r)"
proof -
  have "\<forall>a \<in> set (window w j r). a \<in> \<int>"
    using assms(1) by (auto simp: window_def dest: in_set_takeD in_set_dropD)
  moreover have "sum_list (map abs (window w j r)) \<le> 2 ^ 24"
    using sum_list_abs_window[of w j r] assms(2) by simp
  ultimately show ?thesis
    using accumulate_exact[of "window w j r" 0] by simp
qed

lemma window_sums_small:
  assumes "0 < w"
  shows "sum_list (map abs (map (\<lambda>j. sum_list (window w j r)) [0..<k])) \<le>
         sum_list (map abs (r :: real list))"
proof -
  have "sum_list (map abs (map (\<lambda>j. sum_list (window w j r)) [0..<k])) =
        sum_list (map (\<lambda>j. \<bar>sum_list (window w j r)\<bar>) [0..<k])"
    by (simp add: comp_def)
  also have "\<dots> \<le> sum_list (map (\<lambda>j. sum_list (map abs (window w j r))) [0..<k])"
    by (rule sum_list_mono) (rule sum_list_abs)
  also have "\<dots> = sum_list (map (\<lambda>j. sum_list (window w j (map abs r))) [0..<k])"
    by (simp add: window_def take_map drop_map)
  also have "\<dots> = sum_list (concat (map (\<lambda>j. window w j (map abs r)) [0..<k]))"
    by (simp add: sum_list_concat_rows comp_def)
  also have "\<dots> = sum_list (take (k * w) (map abs r))" by (simp add: concat_windows)
  also have "\<dots> \<le> sum_list (map abs r)" by (rule sum_list_abs_take)
  finally show ?thesis .
qed


text \<open>The driver returns, whatever the reduction and the values.\<close>

lemma reduce_returns:
  assumes cows: "shrinking cows"
  shows "wellShaped x \<Longrightarrow> snd (shape2 x) = n \<Longrightarrow> 1 \<le> n \<Longrightarrow>
         \<exists>out. reduce cows x rt dt = Some out \<and> shape2 out = (fst (shape2 x), 1) \<and> wellShaped out"
proof (induction n arbitrary: x rule: less_induct)
  case (less n)
  let ?w = "cows n"
  let ?k = "ceilDiv n ?w"
  let ?out = "\<lparr>shape2 = (fst (shape2 x), ?k),
               rows = map (\<lambda>r. map (\<lambda>j. reduceWindow rt (window ?w j r)) [0..<?k]) (rows x)\<rparr>"
  have w: "0 < ?w" using cows less.prems(3) by (rule shrinking_pos)
  have run: "runReduceProgram \<lparr>windowSize = ?w, inSize = n, batchSize = fst (shape2 x)\<rparr> rt x =
             Some ?out"
    using w by (simp add: runReduceProgram_def programOutputShape_def)
  have step: "reduce cows x rt dt = (if ?k = 1 then Some ?out else reduce cows ?out rt dt)"
    by (subst reduce.simps) (simp add: less.prems(2) run Let_def)
  have wf: "wellShaped ?out"
    using less.prems(1) by (simp add: wellShaped_def)
  show ?case
  proof (cases "n \<le> ?w")
    case True
    then have k: "?k = 1" using less.prems(3) by (simp add: ceilDiv_one)
    with step wf show ?thesis by simp
  next
    case False
    then have wn: "?w < n" by simp
    then have n2: "2 \<le> n" using w by simp
    then have w2: "2 \<le> ?w" using cows by (simp add: shrinking_two)
    have k2: "2 \<le> ?k" using wn w by (rule ceilDiv_not_one)
    have kn: "?k < n" using w2 n2 by (rule ceilDiv_less)
    have "\<exists>out. reduce cows ?out rt dt = Some out \<and> shape2 out = (fst (shape2 ?out), 1) \<and>
            wellShaped out"
      using kn wf k2 by (intro less.IH[of ?k ?out]) simp_all
    with step k2 show ?thesis by simp
  qed
qed

text \<open>On rows of small integers every pass is exact.\<close>

lemma reduce_sum_rows:
  assumes cows: "shrinking cows"
  shows "wellShaped x \<Longrightarrow> snd (shape2 x) = n \<Longrightarrow> 1 \<le> n \<Longrightarrow>
         \<forall>r \<in> set (rows x). (\<forall>v \<in> set r. v \<in> \<int>) \<and> sum_list (map abs r) \<le> 2 ^ 24 \<Longrightarrow>
         reduce cows x RSum dt =
           Some \<lparr>shape2 = (fst (shape2 x), 1), rows = map (\<lambda>r. [sum_list r]) (rows x)\<rparr>"
proof (induction n arbitrary: x rule: less_induct)
  case (less n)
  let ?w = "cows n"
  let ?k = "ceilDiv n ?w"
  let ?out = "\<lparr>shape2 = (fst (shape2 x), ?k),
               rows = map (\<lambda>r. map (\<lambda>j. reduceWindow RSum (window ?w j r)) [0..<?k]) (rows x)\<rparr>"
  let ?sums = "\<lambda>r. map (\<lambda>j. sum_list (window ?w j r)) [0..<?k]"
  have w: "0 < ?w" using cows less.prems(3) by (rule shrinking_pos)
  have len: "length r = n" if "r \<in> set (rows x)" for r
    using less.prems(1,2) that by (simp add: wellShaped_def)
  have small: "(\<forall>v \<in> set r. v \<in> \<int>) \<and> sum_list (map abs r) \<le> 2 ^ 24" if "r \<in> set (rows x)" for r
    using less.prems(4) that by blast
  have exact: "map (\<lambda>j. reduceWindow RSum (window ?w j r)) [0..<?k] = ?sums r"
    if "r \<in> set (rows x)" for r
  proof -
    have "reduceWindow RSum (window ?w j r) = sum_list (window ?w j r)" for j
      using small[OF that] by (intro reduceWindow_sum_exact) blast+
    then show ?thesis by (simp del: reduceWindow.simps)
  qed
  have out: "rows ?out = map ?sums (rows x)"
    using exact by simp
  have run: "runReduceProgram \<lparr>windowSize = ?w, inSize = n, batchSize = fst (shape2 x)\<rparr> RSum x =
             Some ?out"
    using w by (simp add: runReduceProgram_def programOutputShape_def)
  have step: "reduce cows x RSum dt = (if ?k = 1 then Some ?out else reduce cows ?out RSum dt)"
    by (subst reduce.simps) (simp add: less.prems(2) run Let_def)
  show ?case
  proof (cases "n \<le> ?w")
    case True
    then have k: "?k = 1" using less.prems(3) by (simp add: ceilDiv_one)
    have "map ?sums (rows x) = map (\<lambda>r. [sum_list r]) (rows x)"
      using True len by (simp add: k window_def)
    with step k out show ?thesis by simp
  next
    case False
    then have wn: "?w < n" by simp
    then have n2: "2 \<le> n" using w by simp
    then have w2: "2 \<le> ?w" using cows by (simp add: shrinking_two)
    have k2: "2 \<le> ?k" using wn w by (rule ceilDiv_not_one)
    have kn: "?k < n" using w2 n2 by (rule ceilDiv_less)
    have wf: "wellShaped ?out"
      using less.prems(1) by (simp add: wellShaped_def)
    have inv: "\<forall>r' \<in> set (rows ?out). (\<forall>v \<in> set r'. v \<in> \<int>) \<and> sum_list (map abs r') \<le> 2 ^ 24"
    proof
      fix r' assume "r' \<in> set (rows ?out)"
      then obtain r where r: "r \<in> set (rows x)" "r' = ?sums r"
        unfolding out by auto
      have "\<forall>a \<in> set (window ?w j r). a \<in> \<int>" for j
        using small[OF r(1)] by (auto simp: window_def dest: in_set_takeD in_set_dropD)
      then have "\<forall>v \<in> set r'. v \<in> \<int>"
        unfolding r(2) by (auto intro: sum_list_Ints)
      moreover have "sum_list (map abs r') \<le> 2 ^ 24"
        unfolding r(2) using window_sums_small[OF w, of r ?k] small[OF r(1)] by simp
      ultimately show "(\<forall>v \<in> set r'. v \<in> \<int>) \<and> sum_list (map abs r') \<le> 2 ^ 24" ..
    qed
    have "reduce cows ?out RSum dt =
          Some \<lparr>shape2 = (fst (shape2 ?out), 1), rows = map (\<lambda>r. [sum_list r]) (rows ?out)\<rparr>"
      using kn wf k2 inv by (intro less.IH[of ?k ?out]) simp_all
    moreover have "map (\<lambda>r. [sum_list r]) (rows ?out) = map (\<lambda>r. [sum_list r]) (rows x)"
      unfolding out using len ceilDiv_covers[OF w, of n] by (simp add: sum_windows[OF w])
    ultimately show ?thesis using step k2 by simp
  qed
qed


lemma smallIntegers_iff:
  "smallIntegers r \<longleftrightarrow> (\<forall>v \<in> set r. v \<in> \<int>) \<and> sum_list (map abs r) \<le> 2 ^ 24"
  unfolding smallIntegers_def list_all_iff isInt_iff ..

lemma abs_le_sum_list_abs: "v \<in> set r \<Longrightarrow> \<bar>v\<bar> \<le> sum_list (map abs (r :: real list))"
  by (rule member_le_sum_list) auto

lemma typedArrayToFloat32_small: "smallIntegers r \<Longrightarrow> typedArrayToFloat32 r dt = r"
proof -
  assume a: "smallIntegers r"
  have "float32 v = v" if "v \<in> set r" for v
    using a that abs_le_sum_list_abs[OF that] by (intro float32_Ints) (auto simp: smallIntegers_iff)
  then have "map float32 r = r" by (simp add: map_idI)
  then show ?thesis by (cases dt) (simp_all add: typedArrayToFloat32_def)
qed

lemma toInt32_small: "\<bar>n\<bar> \<le> 2 ^ 24 \<Longrightarrow> toInt32 n = n"
  by (simp add: toInt32_def)

lemma float32ToTypedArray_small:
  assumes "\<forall>v \<in> set a. v \<in> \<int> \<and> \<bar>v\<bar> \<le> 2 ^ 24" and "dt \<noteq> Bool"
  shows "float32ToTypedArray a dt = a"
proof -
  have "of_int (toInt32 (round v)) = v" if "v \<in> set a" for v
  proof -
    from assms(1) that obtain n where n: "v = of_int n" by (auto elim: Ints_cases)
    from assms(1) that n have "\<bar>real_of_int n\<bar> \<le> real_of_int (2 ^ 24)" by auto
    then have "\<bar>n\<bar> \<le> 2 ^ 24" unfolding of_int_abs[symmetric] of_int_le_iff .
    then show ?thesis by (simp add: n toInt32_small)
  qed
  then have "map (\<lambda>v. of_int (toInt32 (round v))) a = a" by (simp add: map_idI)
  with assms(2) show ?thesis by (cases dt) (simp_all add: float32ToTypedArray_def)
qed

lemma length_float32ToTypedArray: "length (float32ToTypedArray a dt) = length a"
  by (cases dt) (simp_all add: float32ToTypedArray_def)

lemma length_typedArrayToFloat32: "length (typedArrayToFloat32 a dt) = length a"
  by (cases dt) (simp_all add: typedArrayToFloat32_def)

lemma length_concat_columns: "\<forall>r \<in> set rs. length r = 1 \<Longrightarrow> length (concat rs) = length rs"
  by (induction rs) simp_all

text \<open>Claim C1, amended. For a window-size heuristic that is at least 1 and at least 2 on
  sizes from 2 on, and an input of shape \<open>[batch, reduceSize]\<close> with \<open>reduceSize\<close> at least 1:
  \<open>reduce\<close> returns, whatever the reduction and the values: it applies one windowed pass
  and recurses until the reduced dimension is 1, and the result has shape \<open>[batch, 1]\<close>;
  \<open>sum\<close> returns \<open>batch\<close> values. When the entries are integers, the absolute values of
  each row add up to at most \<open>2 ^ 24\<close>, and an operand of boolean encoding holds 0 and 1
  only, the result of \<open>reduce\<close> holds the exact sum of each row and \<open>sum\<close> returns the
  exact row sums as read at the encoding of the output: the row sums themselves unless
  that encoding is boolean.\<close>

theorem sum_exact_on_small_integers:
  assumes "shrinking computeOptimalWindowSize" and "wellShaped x" and "1 \<le> snd (shape2 x)"
  shows "(\<exists>out. reduce computeOptimalWindowSize x reduceType dt' = Some out \<and>
            shape2 out = (fst (shape2 x), 1) \<and> wellShaped out) \<and>
         (\<exists>ys. sum_op computeOptimalWindowSize sumOutType dt x = Some ys \<and>
            length ys = fst (shape2 x)) \<and>
         ((\<forall>r \<in> set (rows x). smallIntegers r) \<longrightarrow>
          (dt = Bool \<longrightarrow> (\<forall>r \<in> set (rows x). \<forall>v \<in> set r. v = 0 \<or> v = 1)) \<longrightarrow>
            reduce computeOptimalWindowSize x RSum dt' =
              Some \<lparr>shape2 = (fst (shape2 x), 1), rows = map (\<lambda>r. [sum_list r]) (rows x)\<rparr> \<and>
            sum_op computeOptimalWindowSize sumOutType dt x =
              Some (float32ToTypedArray (map sum_list (rows x)) (sumOutType dt)) \<and>
            (sumOutType dt \<noteq> Bool \<longrightarrow>
               sum_op computeOptimalWindowSize sumOutType dt x = Some (map sum_list (rows x))))"
proof -
  let ?a2D = "x\<lparr>rows := map (\<lambda>r. typedArrayToFloat32 r dt) (rows x)\<rparr>"
  have ret: "\<exists>out. reduce computeOptimalWindowSize x reduceType dt' = Some out \<and>
            shape2 out = (fst (shape2 x), 1) \<and> wellShaped out"
    using assms(1,2) refl assms(3) by (rule reduce_returns)
  have wf: "wellShaped ?a2D"
    using assms(2) by (simp add: wellShaped_def length_typedArrayToFloat32)
  from reduce_returns[OF assms(1) wf refl, of RSum "sumOutType dt"] assms(3)
  obtain out where out: "reduce computeOptimalWindowSize ?a2D RSum (sumOutType dt) = Some out"
    "shape2 out = (fst (shape2 x), 1)" "wellShaped out"
    by auto
  from out(2,3) have "length (concat (rows out)) = fst (shape2 x)"
    by (simp add: wellShaped_def length_concat_columns)
  with out(1) have len: "\<exists>ys. sum_op computeOptimalWindowSize sumOutType dt x = Some ys \<and>
            length ys = fst (shape2 x)"
    by (simp add: sum_op_def Let_def length_float32ToTypedArray)
  have exact: "reduce computeOptimalWindowSize x RSum dt' =
              Some \<lparr>shape2 = (fst (shape2 x), 1), rows = map (\<lambda>r. [sum_list r]) (rows x)\<rparr> \<and>
            sum_op computeOptimalWindowSize sumOutType dt x =
              Some (float32ToTypedArray (map sum_list (rows x)) (sumOutType dt)) \<and>
            (sumOutType dt \<noteq> Bool \<longrightarrow>
               sum_op computeOptimalWindowSize sumOutType dt x = Some (map sum_list (rows x)))"
    if small: "\<forall>r \<in> set (rows x). smallIntegers r"
  proof -
    have inv: "\<forall>r \<in> set (rows x). (\<forall>v \<in> set r. v \<in> \<int>) \<and> sum_list (map abs r) \<le> 2 ^ 24"
      using small by (simp add: smallIntegers_iff)
    have red: "reduce computeOptimalWindowSize x RSum d =
              Some \<lparr>shape2 = (fst (shape2 x), 1), rows = map (\<lambda>r. [sum_list r]) (rows x)\<rparr>" for d
      using assms(1,2) refl assms(3) inv by (rule reduce_sum_rows)
    have "map (\<lambda>r. typedArrayToFloat32 r dt) (rows x) = rows x"
      using small by (simp add: typedArrayToFloat32_small map_idI)
    then have a2D: "?a2D = x" by simp
    have s: "sum_op computeOptimalWindowSize sumOutType dt x =
              Some (float32ToTypedArray (map sum_list (rows x)) (sumOutType dt))"
      unfolding sum_op_def Let_def a2D red
      by (simp add: comp_def concat_map_singleton)
    have "\<forall>v \<in> set (map sum_list (rows x)). v \<in> \<int> \<and> \<bar>v\<bar> \<le> 2 ^ 24"
    proof
      fix v assume "v \<in> set (map sum_list (rows x))"
      then obtain r where r: "r \<in> set (rows x)" "v = sum_list r" by auto
      from inv r(1) have "(\<forall>v \<in> set r. v \<in> \<int>)" "sum_list (map abs r) \<le> 2 ^ 24" by auto
      with sum_list_abs[of r] show "v \<in> \<int> \<and> \<bar>v\<bar> \<le> 2 ^ 24"
        unfolding r(2) by (auto intro: sum_list_Ints)
    qed
    then have "sumOutType dt \<noteq> Bool \<Longrightarrow>
        float32ToTypedArray (map sum_list (rows x)) (sumOutType dt) = map sum_list (rows x)"
      by (rule float32ToTypedArray_small)
    with red s show ?thesis by simp
  qed
  from ret len exact show ?thesis by blast
qed


theorem sum_exact_on_small_integers_witness:
  "sum_op (\<lambda>n. 3) (\<lambda>dt. dt) Int32
     \<lparr>shape2 = (2, 7), rows = [[1, 2, 3, 4, 5, 6, 7], [7, 6, 5, 4, 3, 2, 10]]\<rparr>
     = Some [28, 37] \<and>
   reduce (\<lambda>n. 3) \<lparr>shape2 = (2, 7), rows = [[1, 2, 3, 4, 5, 6, 7], [7, 6, 5, 4, 3, 2, 10]]\<rparr>
     RSum Int32 = Some \<lparr>shape2 = (2, 1), rows = [[28], [37]]\<rparr> \<and>
   sum_op (\<lambda>n. 2) (\<lambda>dt. Int32) Bool \<lparr>shape2 = (2, 4), rows = [[1, 0, 1, 1], [0, 0, 1, 0]]\<rparr>
     = Some [3, 1]"
proof -
  have "shrinking (\<lambda>n. 3)" by (auto simp: shrinking_def)
  from sum_exact_on_small_integers[OF this,
      of "\<lparr>shape2 = (2, 7), rows = [[1, 2, 3, 4, 5, 6, 7], [7, 6, 5, 4, 3, 2, 10]]\<rparr>"
         RSum Int32 "\<lambda>dt. dt" Int32]
  have a: "sum_op (\<lambda>n. 3) (\<lambda>dt. dt) Int32
     \<lparr>shape2 = (2, 7), rows = [[1, 2, 3, 4, 5, 6, 7], [7, 6, 5, 4, 3, 2, 10]]\<rparr>
     = Some [28, 37] \<and>
   reduce (\<lambda>n. 3) \<lparr>shape2 = (2, 7), rows = [[1, 2, 3, 4, 5, 6, 7], [7, 6, 5, 4, 3, 2, 10]]\<rparr>
     RSum Int32 = Some \<lparr>shape2 = (2, 1), rows = [[28], [37]]\<rparr>"
    by (simp add: wellShaped_def smallIntegers_def float32ToTypedArray_def toInt32_def)
  have "shrinking (\<lambda>n. 2)" by (auto simp: shrinking_def)
  from sum_exact_on_small_integers[OF this,
      of "\<lparr>shape2 = (2, 4), rows = [[1, 0, 1, 1], [0, 0, 1, 0]]\<rparr>"
         RSum Int32 "\<lambda>dt. Int32" Bool]
  have b: "sum_op (\<lambda>n. 2) (\<lambda>dt. Int32) Bool
     \<lparr>shape2 = (2, 4), rows = [[1, 0, 1, 1], [0, 0, 1, 0]]\<rparr> = Some [3, 1]"
    by (simp add: wellShaped_def smallIntegers_def float32ToTypedArray_def toInt32_def)
  from a b show ?thesis by simp
qed

text \<open>A heuristic that chooses window size 1 on a row of two or more elements gives a
  pass that reduces nothing, and the driver has no result.\<close>

lemma ceilDiv_window_one: "ceilDiv n (Suc 0) = n"
  by (simp add: ceilDiv_def)

lemma reduce_window_one_aux:
  assumes "reduce c x rt dt = Some y"
  shows "\<not> (c (snd (shape2 x)) = 1 \<and> 2 \<le> snd (shape2 x))"
proof -
  have step: "\<not> (c (snd (shape2 x)) = 1 \<and> 2 \<le> snd (shape2 x))"
    if ih: "\<And>c x rt dt y. reduce' c x rt dt = Some y \<Longrightarrow>
              \<not> (c (snd (shape2 x)) = 1 \<and> 2 \<le> snd (shape2 x))"
      and body: "(let reduceInfo = \<lparr>windowSize = c (snd (shape2 x)), inSize = snd (shape2 x),
                                     batchSize = fst (shape2 x)\<rparr>
                  in case runReduceProgram reduceInfo rt x of
                       None \<Rightarrow> None
                     | Some output \<Rightarrow>
                         if snd (shape2 output) = 1 then Some output
                         else reduce' c output rt dt) = Some y"
    for reduce' c x rt dt and y :: "real Array2D"
  proof
    assume a: "c (snd (shape2 x)) = 1 \<and> 2 \<le> snd (shape2 x)"
    let ?out = "\<lparr>shape2 = (fst (shape2 x), snd (shape2 x)),
                 rows = map (\<lambda>r. map (\<lambda>j. reduceWindow rt (window 1 j r)) [0..<snd (shape2 x)])
                          (rows x)\<rparr>"
    from a have "runReduceProgram \<lparr>windowSize = c (snd (shape2 x)), inSize = snd (shape2 x),
                  batchSize = fst (shape2 x)\<rparr> rt x = Some ?out"
      by (simp add: runReduceProgram_def programOutputShape_def ceilDiv_window_one)
    with body a have "reduce' c ?out rt dt = Some y"
      by (simp add: Let_def)
    from ih[OF this] a show False by simp
  qed
  show ?thesis
    by (rule reduce.raw_induct[where P = "\<lambda>c x rt dt y. \<not> (c (snd (shape2 x)) = 1 \<and> 2 \<le> snd (shape2 x))"
          and xa = "(((c, x), rt), dt)" and y = y, unfolded prod.case])
       (rule step, assumption+, rule assms)
qed

lemma reduce_window_one_no_result:
  "2 \<le> snd (shape2 x) \<Longrightarrow> c (snd (shape2 x)) = 1 \<Longrightarrow> reduce c x rt dt = None"
  using reduce_window_one_aux[of c x rt dt] by (cases "reduce c x rt dt") auto

lemma float32_16777216: "float32 16777216 = 16777216"
  by (simp add: float32_numeral)

lemma reduce_two_columns:
  assumes "2 \<le> w" and "c 2 = w"
  shows "reduce c \<lparr>shape2 = (1, 2), rows = [[a, b]]\<rparr> RSum dt =
         Some \<lparr>shape2 = (1, 1), rows = [[float32 (float32 a + b)]]\<rparr>"
proof -
  have k: "ceilDiv 2 w = 1" using assms(1) by (simp add: ceilDiv_one)
  have t: "take w [a, b] = [a, b]" using assms(1) by simp
  have w: "0 < w" using assms(1) by simp
  show ?thesis
    by (subst reduce.simps)
       (simp add: runReduceProgram_def programOutputShape_def Let_def assms(2) k w t window_def)
qed

text \<open>Claim C1, as stated, fails: the sums are made in 32-bit floating point. The row
  \<open>[16777216, 1]\<close> of a \<open>'float32'\<close> array has the sum 16777217, which is not a 32-bit
  float: with window size 2 \<open>sum\<close> returns 16777216. The \<open>'int32'\<close> row \<open>[16777217, 0]\<close>
  loses its last bit when the operand is made resident, and \<open>sum\<close> returns 16777216 again.\<close>

theorem sum_rounding_counterexample:
  "sum_op (\<lambda>n. 2) (\<lambda>dt. dt) Float32 \<lparr>shape2 = (1, 2), rows = [[16777216, 1]]\<rparr> = Some [16777216] \<and>
   map sum_list [[16777216, 1 :: real]] = [16777217] \<and>
   sum_op (\<lambda>n. 2) (\<lambda>dt. dt) Int32 \<lparr>shape2 = (1, 2), rows = [[16777217, 0]]\<rparr> = Some [16777216] \<and>
   map sum_list [[16777217, 0 :: real]] = [16777217] \<and>
   shrinking (\<lambda>n. 2) \<and>
   wellShaped \<lparr>shape2 = (1, 2), rows = [[16777216, 1 :: real]]\<rparr> \<and>
   wellShaped \<lparr>shape2 = (1, 2), rows = [[16777217, 0 :: real]]\<rparr>"
proof -
  have r1: "reduce (\<lambda>n. 2) \<lparr>shape2 = (1, 2), rows = [[16777216, 1]]\<rparr> RSum Float32 =
            Some \<lparr>shape2 = (1, 1), rows = [[16777216]]\<rparr>"
    using reduce_two_columns[of 2 "\<lambda>n. 2" 16777216 1 Float32]
    by (simp add: float32_16777216 float32_16777217)
  have r2: "reduce (\<lambda>n. 2) \<lparr>shape2 = (1, 2), rows = [[16777216, 0]]\<rparr> RSum Int32 =
            Some \<lparr>shape2 = (1, 1), rows = [[16777216]]\<rparr>"
    using reduce_two_columns[of 2 "\<lambda>n. 2" 16777216 0 Int32]
    by (simp add: float32_16777216)
  have c1: "sum_op (\<lambda>n. 2) (\<lambda>dt. dt) Float32 \<lparr>shape2 = (1, 2), rows = [[16777216, 1]]\<rparr> =
            Some [16777216]"
    using r1 by (simp add: sum_op_def typedArrayToFloat32_def float32ToTypedArray_def)
  have c2: "sum_op (\<lambda>n. 2) (\<lambda>dt. dt) Int32 \<lparr>shape2 = (1, 2), rows = [[16777217, 0]]\<rparr> =
            Some [16777216]"
    using r2
    by (simp add: sum_op_def typedArrayToFloat32_def float32ToTypedArray_def float32_16777217
          toInt32_def)
  show ?thesis
    using c1 c2 by (simp add: shrinking_def wellShaped_def)
qed

text \<open>No window-size heuristic and no encoding of the output make \<open>sum\<close> return the exact
  sum of that row.\<close>

lemma sum_rounding_for_every_window:
  "sum_op c t Float32 \<lparr>shape2 = (1, 2), rows = [[16777216, 1]]\<rparr> \<noteq> Some [16777217]"
proof -
  let ?x = "\<lparr>shape2 = (1, 2), rows = [[16777216, 1 :: real]]\<rparr>"
  consider "c 2 = 0" | "c 2 = 1" | "2 \<le> c 2" by linarith
  then have "reduce c ?x RSum (t Float32) = None \<or>
             reduce c ?x RSum (t Float32) = Some \<lparr>shape2 = (1, 1), rows = [[16777216]]\<rparr>"
  proof cases
    case 1
    then show ?thesis
      by (subst reduce.simps) (simp add: runReduceProgram_def programOutputShape_def)
  next
    case 2
    then show ?thesis using reduce_window_one_no_result[of ?x c RSum "t Float32"] by simp
  next
    case 3
    then show ?thesis
      using reduce_two_columns[of "c 2" c 16777216 1 "t Float32"]
      by (simp add: float32_16777216 float32_16777217)
  qed
  then show ?thesis
    by (cases "t Float32")
       (auto simp: sum_op_def typedArrayToFloat32_def float32ToTypedArray_def toInt32_def)
qed

subsection \<open>Arg-reductions\<close>



lemma argWindow_single [simp]: "argWindow rt v [a] = a"
  by (simp add: argWindow_def)







lemma map2_cong_right:
  "(\<And>y. y \<in> set ys \<Longrightarrow> f' y = g' y) \<Longrightarrow>
   map2 (\<lambda>x y. h x (f' y)) xs ys = map2 (\<lambda>x y. h x (g' y)) xs ys"
  by (rule map_cong[OF refl]) (auto dest: set_zip_rightD)






end
